theory Spec2Isabelle
  imports Main
begin

section \<open>JavaScript values of a webhook payload\<close>

text \<open>
  The handler of \<^verbatim>\<open>src/app/api/webhook/creem/route.ts\<close> reads a JSON body and
  treats its \<^verbatim>\<open>metadata\<close> as \<^verbatim>\<open>any\<close>, so the payload is modelled as a JavaScript
  value and not as a typed record. \<open>JUndefined\<close> is what reading a missing property gives;
  an object is the list of its own properties. Numbers of a payload are integers below
  \<^verbatim>\<open>1e21\<close> in magnitude, which \<^verbatim>\<open>ToString\<close> writes in plain decimal digits (a
  JSON number with a fraction or an exponent is outside the model), and a string is a
  list of characters, read as ASCII text.
\<close>

datatype jsval =
    JUndefined
  | JNull
  | JBool bool
  | JNum int
  | JStr string
  | JArr "jsval list"
  | JObj "(string \<times> jsval) list"

text \<open>
  The result of \<^verbatim>\<open>parseInt\<close> and of number arithmetic: \<^verbatim>\<open>NaN\<close> or an integer (the
  rounding of integers beyond \<^verbatim>\<open>2^53\<close> to a double is not modelled).
\<close>

datatype jsnum = NaN | Fin int

text \<open>What a \<^verbatim>\<open>throw\<close> inside the handler's \<^verbatim>\<open>try\<close> block carries.\<close>

datatype error = TypeError | SyntaxError | StoreError string

text \<open>
  \<^verbatim>\<open>v.k\<close>: reading a property of \<^verbatim>\<open>undefined\<close> or \<^verbatim>\<open>null\<close> throws a TypeError; an
  object gives the property or \<^verbatim>\<open>undefined\<close>; every other value gives \<^verbatim>\<open>undefined\<close> for
  the property names the handler reads (none of them is \<^verbatim>\<open>length\<close> or an index).
\<close>

fun get_prop :: "jsval \<Rightarrow> string \<Rightarrow> error + jsval" where
  "get_prop JUndefined k = Inl TypeError"
| "get_prop JNull k = Inl TypeError"
| "get_prop (JObj kvs) k = Inr (case map_of kvs k of None \<Rightarrow> JUndefined | Some v \<Rightarrow> v)"
| "get_prop v k = Inr JUndefined"

text \<open>\<^verbatim>\<open>v?.k\<close>: optional chaining gives \<^verbatim>\<open>undefined\<close> where \<^verbatim>\<open>v.k\<close> would throw.\<close>

definition opt_prop :: "jsval \<Rightarrow> string \<Rightarrow> jsval" where
  "opt_prop v k = (case get_prop v k of Inl e \<Rightarrow> JUndefined | Inr x \<Rightarrow> x)"

text \<open>\<^verbatim>\<open>ToBoolean\<close> and the operator \<^verbatim>\<open>a || b\<close>.\<close>

fun truthy :: "jsval \<Rightarrow> bool" where
  "truthy JUndefined = False"
| "truthy JNull = False"
| "truthy (JBool b) = b"
| "truthy (JNum n) = (n \<noteq> 0)"
| "truthy (JStr s) = (s \<noteq> [])"
| "truthy (JArr xs) = True"
| "truthy (JObj kvs) = True"

definition js_or :: "jsval \<Rightarrow> jsval \<Rightarrow> jsval" where
  "js_or a b = (if truthy a then a else b)"

subsection \<open>ToString and parseInt\<close>

definition digit_char :: "nat \<Rightarrow> char" where
  "digit_char d = ''0123456789'' ! d"

fun digits_of :: "nat \<Rightarrow> string" where
  "digits_of n = (if n < 10 then [digit_char n] else digits_of (n div 10) @ [digit_char (n mod 10)])"

declare digits_of.simps [simp del]

fun join_comma :: "string list \<Rightarrow> string" where
  "join_comma [] = []"
| "join_comma [s] = s"
| "join_comma (s # t # ss) = s @ '','' @ join_comma (t # ss)"

text \<open>
  \<^verbatim>\<open>ToString\<close>, which \<^verbatim>\<open>parseInt\<close> applies to its argument first. An array joins its
  elements with commas, \<^verbatim>\<open>undefined\<close> and \<^verbatim>\<open>null\<close> elements giving the empty string.
  An object gives \<^verbatim>\<open>[object Object]\<close>; that an object with a property of its own named
  \<^verbatim>\<open>toString\<close> makes the conversion throw is not modelled.
\<close>

fun ToString :: "jsval \<Rightarrow> string" where
  "ToString JUndefined = ''undefined''"
| "ToString JNull = ''null''"
| "ToString (JBool b) = (if b then ''true'' else ''false'')"
| "ToString (JNum n) = (if n < 0 then ''-'' @ digits_of (nat (- n)) else digits_of (nat n))"
| "ToString (JStr s) = s"
| "ToString (JArr xs) =
     join_comma (map (\<lambda>x. if x = JUndefined \<or> x = JNull then [] else ToString x) xs)"
| "ToString (JObj kvs) = ''[object Object]''"

definition StrWhiteSpaceChar :: "char \<Rightarrow> bool" where
  "StrWhiteSpaceChar c \<longleftrightarrow> c \<in> set [CHR 0x09, CHR 0x0A, CHR 0x0B, CHR 0x0C, CHR 0x0D, CHR '' '']"

text \<open>The value of a character as a digit (letters count from ten, in either case).\<close>

definition digit_value :: "char \<Rightarrow> nat option" where
  "digit_value c =
     (let n = (of_char c :: nat) in
      if 48 \<le> n \<and> n \<le> 57 then Some (n - 48)
      else if 97 \<le> n \<and> n \<le> 122 then Some (n - 87)
      else if 65 \<le> n \<and> n \<le> 90 then Some (n - 55)
      else None)"

definition radix_digit :: "nat \<Rightarrow> char \<Rightarrow> bool" where
  "radix_digit R c = (case digit_value c of None \<Rightarrow> False | Some d \<Rightarrow> d < R)"

fun digits_value :: "nat \<Rightarrow> nat \<Rightarrow> string \<Rightarrow> nat" where
  "digits_value R acc [] = acc"
| "digits_value R acc (c # cs) =
     digits_value R (acc * R + (case digit_value c of None \<Rightarrow> 0 | Some d \<Rightarrow> d)) cs"

text \<open>
  \<^verbatim>\<open>parseInt(v)\<close> with no radix: skip leading white space, read a sign, switch to radix
  16 after \<^verbatim>\<open>0x\<close> or \<^verbatim>\<open>0X\<close>, read the longest run of digits, and give \<^verbatim>\<open>NaN\<close> when
  that run is empty.
\<close>

definition parseInt :: "jsval \<Rightarrow> jsnum" where
  "parseInt v =
     (let S = dropWhile StrWhiteSpaceChar (ToString v);
          sign = (if take 1 S = ''-'' then - 1 else (1::int));
          S1 = (if take 1 S = ''-'' \<or> take 1 S = ''+'' then drop 1 S else S);
          hex = (take 2 S1 = ''0x'' \<or> take 2 S1 = ''0X'');
          R = (if hex then 16 else 10);
          S2 = (if hex then drop 2 S1 else S1);
          Z = takeWhile (radix_digit R) S2
      in if Z = [] then NaN else Fin (sign * int (digits_value R 0 Z)))"

text \<open>
  \<^verbatim>\<open>parseFloat\<close> yields a floating-point number, which is not modelled: the value is
  kept as the application of \<^verbatim>\<open>parseFloat\<close> to its operand.
\<close>

datatype jsfloat = ParseFloat jsval

text \<open>\<^verbatim>\<open>a + b\<close> and \<^verbatim>\<open>a > b\<close> on numbers.\<close>

fun num_add :: "jsnum \<Rightarrow> jsnum \<Rightarrow> jsnum" where
  "num_add (Fin a) (Fin b) = Fin (a + b)"
| "num_add a b = NaN"

fun num_gt :: "jsnum \<Rightarrow> jsnum \<Rightarrow> bool" where
  "num_gt (Fin a) (Fin b) = (a > b)"
| "num_gt a b = False"

section \<open>Dates\<close>

text \<open>
  A \<^verbatim>\<open>Date\<close> is its time value, the milliseconds since the epoch. The calendar
  functions are those of the ECMAScript specification; the host's local time zone is taken
  to be UTC (\<open>LocalTZA = 0\<close>).
\<close>

type_synonym date = int

definition msPerDay :: int where
  "msPerDay = 86400000"

definition LocalTZA :: int where
  "LocalTZA = 0"

definition Day :: "int \<Rightarrow> int" where
  "Day t = t div msPerDay"

definition TimeWithinDay :: "int \<Rightarrow> int" where
  "TimeWithinDay t = t mod msPerDay"

text \<open>
  The day number (days since 1 January 1970) of a date of the proleptic Gregorian
  calendar, months counted from 1.
\<close>

definition days_from_civil :: "int \<Rightarrow> int \<Rightarrow> int \<Rightarrow> int" where
  "days_from_civil y m d =
     (let y1 = (if m \<le> 2 then y - 1 else y);
          era = y1 div 400;
          yoe = y1 - era * 400;
          doy = (153 * (if m > 2 then m - 3 else m + 9) + 2) div 5 + d - 1;
          doe = yoe * 365 + yoe div 4 - yoe div 100 + doy
      in era * 146097 + doe - 719468)"

text \<open>The year, the month (from 1) and the day of the month of a day number.\<close>

definition civil_from_days :: "int \<Rightarrow> int \<times> int \<times> int" where
  "civil_from_days z =
     (let z1 = z + 719468;
          era = z1 div 146097;
          doe = z1 - era * 146097;
          yoe = (doe - doe div 1460 + doe div 36524 - doe div 146096) div 365;
          doy = doe - (365 * yoe + yoe div 4 - yoe div 100);
          mp = (5 * doy + 2) div 153;
          d = doy - (153 * mp + 2) div 5 + 1;
          m = (if mp < 10 then mp + 3 else mp - 9);
          y = yoe + era * 400
      in (if m \<le> 2 then y + 1 else y, m, d))"

definition YearFromTime :: "int \<Rightarrow> int" where
  "YearFromTime t = fst (civil_from_days (Day t))"

definition MonthFromTime :: "int \<Rightarrow> int" where
  "MonthFromTime t = fst (snd (civil_from_days (Day t))) - 1"

definition DateFromTime :: "int \<Rightarrow> int" where
  "DateFromTime t = snd (snd (civil_from_days (Day t)))"

text \<open>\<^verbatim>\<open>MakeDay\<close>: a month outside 0..11 carries into the year, a day past the month's
  end carries into the following month.\<close>

definition MakeDay :: "int \<Rightarrow> int \<Rightarrow> int \<Rightarrow> int" where
  "MakeDay year month dt = days_from_civil (year + month div 12) (month mod 12 + 1) 1 + dt - 1"

definition MakeDate :: "int \<Rightarrow> int \<Rightarrow> int" where
  "MakeDate day time = day * msPerDay + time"

definition LocalTime :: "int \<Rightarrow> int" where
  "LocalTime t = t + LocalTZA"

definition UTC :: "int \<Rightarrow> int" where
  "UTC t = t - LocalTZA"

definition getMonth :: "date \<Rightarrow> int" where
  "getMonth d = MonthFromTime (LocalTime d)"

definition getFullYear :: "date \<Rightarrow> int" where
  "getFullYear d = YearFromTime (LocalTime d)"

definition setMonth :: "date \<Rightarrow> int \<Rightarrow> date" where
  "setMonth d month =
     (let t = LocalTime d
      in UTC (MakeDate (MakeDay (YearFromTime t) month (DateFromTime t)) (TimeWithinDay t)))"

definition setFullYear :: "date \<Rightarrow> int \<Rightarrow> date" where
  "setFullYear d year =
     (let t = LocalTime d
      in UTC (MakeDate (MakeDay year (MonthFromTime t) (DateFromTime t)) (TimeWithinDay t)))"

section \<open>The records the handler passes to the services\<close>

text \<open>
  The types \<^verbatim>\<open>CreditUsage\<close>, \<^verbatim>\<open>UserSubscription\<close> and \<^verbatim>\<open>PaymentHistory\<close> are declared
  in \<^verbatim>\<open>@/backend/type/type\<close>, which is not among the sources at hand: the records have the
  fields of the object literals that the handler passes. All three have a field
  \<^verbatim>\<open>user_uuid\<close>, two have \<^verbatim>\<open>subscription_plan_id\<close>: the later ones carry a prefix.
  A field read from the database may be \<^verbatim>\<open>null\<close>, and a field that an object literal
  of the handler leaves out is missing: both are \<open>None\<close>.
\<close>

record credit_usage =
  user_uuid :: jsval
  credit_used :: jsnum
  credit_total :: jsnum
  period_start :: "date option"
  period_end :: "date option"

text \<open>The values of \<^verbatim>\<open>UserSubscriptionStatusEnum\<close> that the handler uses.\<close>

datatype UserSubscriptionStatusEnum = ACTIVE | CANCELLED | EXPIRED

record user_subscription =
  sub_user_uuid :: jsval
  sub_subscription_plan_id :: "jsnum option"
  status :: UserSubscriptionStatusEnum
  current_period_start :: "date option"
  current_period_end :: "date option"
  stripe_subscription_id :: jsval
  stripe_customer_id :: "jsval option"

record payment_history =
  pay_user_uuid :: jsval
  pay_subscription_plan_id :: jsnum
  amount :: jsfloat
  interval :: jsval
  payment_status :: string
  payment_intent_id :: jsval

section \<open>Awaited calls that may throw\<close>

text \<open>
  A step of the handler runs on a store state of type \<open>'s\<close> and either returns a value or
  throws; in both cases it leaves a state behind. \<open>bind_io\<close> is sequencing of awaited
  calls: a throw skips everything that follows.
\<close>

type_synonym ('s, 'a) io = "'s \<Rightarrow> (error + 'a) \<times> 's"

definition return_io :: "'a \<Rightarrow> ('s, 'a) io" where
  "return_io x = (\<lambda>s. (Inr x, s))"

definition lift_io :: "error + 'a \<Rightarrow> ('s, 'a) io" where
  "lift_io r = (\<lambda>s. (r, s))"

definition bind_io :: "('s, 'a) io \<Rightarrow> ('a \<Rightarrow> ('s, 'b) io) \<Rightarrow> ('s, 'b) io" where
  "bind_io m f = (\<lambda>s. case m s of (Inl e, s') \<Rightarrow> (Inl e, s') | (Inr x, s') \<Rightarrow> f x s')"

text \<open>
  The service functions the handler imports from \<^verbatim>\<open>@/backend/service/*\<close>. Their code
  is not part of the sources at hand, so the handler takes them as a parameter.
  \<^verbatim>\<open>getCreditUsageByUserId\<close> may give a falsy result (\<open>None\<close>), and so may
  \<^verbatim>\<open>getUserSubscriptionByUserId\<close>, whose result is otherwise an array.
\<close>

record 's store_ops =
  getCreditUsageByUserId :: "jsval \<Rightarrow> ('s, credit_usage option) io"
  createCreditUsage :: "credit_usage \<Rightarrow> ('s, unit) io"
  updateCreditUsage :: "credit_usage \<Rightarrow> ('s, unit) io"
  getUserSubscriptionByUserId :: "jsval \<Rightarrow> ('s, user_subscription list option) io"
  createUserSubscription :: "user_subscription \<Rightarrow> ('s, unit) io"
  updateUserSubscription :: "user_subscription \<Rightarrow> ('s, unit) io"
  createPaymentHistory :: "payment_history \<Rightarrow> ('s, unit) io"

section \<open>The webhook handler\<close>

text \<open>\<^verbatim>\<open>v.k1.k2...\<close>: the first read of \<^verbatim>\<open>undefined\<close> or \<^verbatim>\<open>null\<close> throws.\<close>

fun path :: "jsval \<Rightarrow> string list \<Rightarrow> error + jsval" where
  "path v [] = Inr v"
| "path v (k # ks) = (case get_prop v k of Inl e \<Rightarrow> Inl e | Inr x \<Rightarrow> path x ks)"

text \<open>
  \<^verbatim>\<open>webhook.eventType\<close>, \<^verbatim>\<open>webhook.object.id\<close> and \<^verbatim>\<open>webhook.object.metadata?.k\<close>.
  The handler evaluates them only after \<^verbatim>\<open>webhook.object.product.billing_type\<close> has been
  read, so \<^verbatim>\<open>webhook\<close> and \<^verbatim>\<open>webhook.object\<close> are neither \<^verbatim>\<open>undefined\<close> nor
  \<^verbatim>\<open>null\<close> there and these reads cannot throw.
\<close>

definition eventType :: "jsval \<Rightarrow> jsval" where
  "eventType webhook = opt_prop webhook ''eventType''"

definition object_id :: "jsval \<Rightarrow> jsval" where
  "object_id webhook = opt_prop (opt_prop webhook ''object'') ''id''"

definition metadata_opt :: "jsval \<Rightarrow> string \<Rightarrow> jsval" where
  "metadata_opt webhook k = opt_prop (opt_prop (opt_prop webhook ''object'') ''metadata'') k"

text \<open>\<^verbatim>\<open>r.f\<close> on the result of a service call that may be \<^verbatim>\<open>undefined\<close> or \<^verbatim>\<open>null\<close>.\<close>

definition field_of :: "'r option \<Rightarrow> ('r \<Rightarrow> 'a) \<Rightarrow> error + 'a" where
  "field_of r f = (case r of None \<Rightarrow> Inl TypeError | Some x \<Rightarrow> Inr (f x))"

text \<open>
  The one-time payment flow, lines 110 to 152 of \<^verbatim>\<open>route.ts\<close>. \<open>currentDate\<close> is what
  \<^verbatim>\<open>new Date()\<close> reads from the clock. The read of
  \<^verbatim>\<open>credit_usage_from_db.period_end\<close> in line 122 comes before the test
  \<^verbatim>\<open>!credit_usage_from_db\<close> of line 126, as in the source.
\<close>

definition checkout_completed :: "'s store_ops \<Rightarrow> date \<Rightarrow> jsval \<Rightarrow> ('s, unit) io" where
  "checkout_completed ops currentDate webhook =
     bind_io (lift_io (path webhook [''object'', ''request_id''])) (\<lambda>userId.
     bind_io (lift_io (path webhook [''object'', ''product'', ''id''])) (\<lambda>productId.
     bind_io (lift_io (path webhook [''object'', ''customer'', ''id''])) (\<lambda>providerCustomerId.
     let newPeriodEnd0 = setMonth currentDate (getMonth currentDate + 1) in
     bind_io (getCreditUsageByUserId ops userId) (\<lambda>credit_usage_from_db.
     bind_io (lift_io (field_of credit_usage_from_db period_end)) (\<lambda>db_period_end.
     let newPeriodEnd =
           (case db_period_end of
              None \<Rightarrow> newPeriodEnd0
            | Some e \<Rightarrow> if e > newPeriodEnd0 then e else newPeriodEnd0) in
     bind_io
       (case credit_usage_from_db of
          None \<Rightarrow>
            createCreditUsage ops
              \<lparr>user_uuid = userId,
               credit_used = Fin 0,
               credit_total = parseInt (js_or (metadata_opt webhook ''credit'') (JStr ''100'')),
               period_start = Some currentDate,
               period_end = Some newPeriodEnd\<rparr>
        | Some db \<Rightarrow>
            updateCreditUsage ops
              \<lparr>user_uuid = userId,
               credit_used = credit_used db,
               credit_total =
                 num_add (credit_total db)
                   (parseInt (js_or (metadata_opt webhook ''credit'') (JStr ''100''))),
               period_start = period_start db,
               period_end = Some newPeriodEnd\<rparr>) (\<lambda>_.
     createPaymentHistory ops
       \<lparr>pay_user_uuid = userId,
        pay_subscription_plan_id =
          parseInt (js_or (metadata_opt webhook ''subscriptionPlanId'') (JStr ''1'')),
        amount = ParseFloat (js_or (metadata_opt webhook ''amount'') (JStr ''0'')),
        interval = js_or (metadata_opt webhook ''interval'') (JStr ''month''),
        payment_status = ''completed'',
        payment_intent_id = object_id webhook\<rparr>))))))"

text \<open>The \<^verbatim>\<open>subscription.paid\<close> flow, lines 176 to 235.\<close>

definition subscription_paid :: "'s store_ops \<Rightarrow> date \<Rightarrow> jsval \<Rightarrow> ('s, unit) io" where
  "subscription_paid ops currentDate webhook =
     bind_io (lift_io (path webhook [''object'', ''metadata'', ''userId''])) (\<lambda>userId.
     bind_io (lift_io (path webhook [''object'', ''product'', ''id''])) (\<lambda>productId.
     bind_io (lift_io (path webhook [''object'', ''customer'', ''id''])) (\<lambda>providerCustomerId.
     let newPeriodEnd =
           (if metadata_opt webhook ''interval'' = JStr ''year''
            then setFullYear currentDate (getFullYear currentDate + 1)
            else setMonth currentDate (getMonth currentDate + 1)) in
     bind_io (getUserSubscriptionByUserId ops userId) (\<lambda>existingSubscription.
     bind_io
       (if existingSubscription = None \<or> existingSubscription = Some []
        then
          createUserSubscription ops
            \<lparr>sub_user_uuid = userId,
             sub_subscription_plan_id =
               Some (parseInt (js_or (metadata_opt webhook ''subscriptionPlanId'') (JStr ''1''))),
             status = ACTIVE,
             current_period_start = Some currentDate,
             current_period_end = Some newPeriodEnd,
             stripe_subscription_id = object_id webhook,
             stripe_customer_id = Some providerCustomerId\<rparr>
        else
          updateUserSubscription ops
            \<lparr>sub_user_uuid = userId,
             sub_subscription_plan_id =
               Some (parseInt (js_or (metadata_opt webhook ''subscriptionPlanId'') (JStr ''1''))),
             status = ACTIVE,
             current_period_start = Some currentDate,
             current_period_end = Some newPeriodEnd,
             stripe_subscription_id = object_id webhook,
             stripe_customer_id = Some providerCustomerId\<rparr>) (\<lambda>_.
     bind_io (getCreditUsageByUserId ops userId) (\<lambda>credit_usage_from_db.
       (case credit_usage_from_db of
          None \<Rightarrow>
            createCreditUsage ops
              \<lparr>user_uuid = userId,
               credit_used = Fin 0,
               credit_total = parseInt (js_or (metadata_opt webhook ''credit'') (JStr ''1000'')),
               period_start = Some currentDate,
               period_end = Some newPeriodEnd\<rparr>
        | Some db \<Rightarrow>
            updateCreditUsage ops
              \<lparr>user_uuid = userId,
               credit_used = Fin 0,
               credit_total = parseInt (js_or (metadata_opt webhook ''credit'') (JStr ''1000'')),
               period_start = Some currentDate,
               period_end = Some newPeriodEnd\<rparr>)))))))"

text \<open>
  The \<^verbatim>\<open>subscription.canceled\<close> and \<^verbatim>\<open>subscription.expired\<close> flows, lines 239 to 246
  and 250 to 257, which differ in the status they write.
\<close>

definition subscription_ended ::
  "'s store_ops \<Rightarrow> UserSubscriptionStatusEnum \<Rightarrow> jsval \<Rightarrow> ('s, unit) io" where
  "subscription_ended ops st webhook =
     bind_io (lift_io (path webhook [''object'', ''metadata'', ''userId''])) (\<lambda>userId.
     updateUserSubscription ops
       \<lparr>sub_user_uuid = userId,
        sub_subscription_plan_id = None,
        status = st,
        current_period_start = None,
        current_period_end = None,
        stripe_subscription_id = object_id webhook,
        stripe_customer_id = None\<rparr>)"

text \<open>\<^verbatim>\<open>await req.json()\<close> rejects when the body is not JSON: that body is \<open>None\<close>.\<close>

definition req_json :: "jsval option \<Rightarrow> error + jsval" where
  "req_json body = (case body of None \<Rightarrow> Inl SyntaxError | Some v \<Rightarrow> Inr v)"

text \<open>The body of the \<^verbatim>\<open>try\<close> block, lines 95 to 259.\<close>

definition try_block :: "'s store_ops \<Rightarrow> date \<Rightarrow> jsval option \<Rightarrow> ('s, unit) io" where
  "try_block ops now body =
     bind_io (lift_io (req_json body)) (\<lambda>webhook.
     bind_io (lift_io (path webhook [''object'', ''product'', ''billing_type''])) (\<lambda>billing_type.
     let isSubscription = (billing_type = JStr ''recurring'') in
     if \<not> isSubscription then
       (if eventType webhook = JStr ''checkout.completed''
        then checkout_completed ops now webhook
        else return_io ())
     else
       bind_io
         (if eventType webhook = JStr ''subscription.paid''
          then subscription_paid ops now webhook
          else return_io ()) (\<lambda>_.
       bind_io
         (if eventType webhook = JStr ''subscription.canceled''
          then subscription_ended ops CANCELLED webhook
          else return_io ()) (\<lambda>_.
       (if eventType webhook = JStr ''subscription.expired''
        then subscription_ended ops EXPIRED webhook
        else return_io ())))))"

text \<open>\<^verbatim>\<open>NextResponse.json(body, {status})\<close>; the status is 200 when none is given.\<close>

record response =
  status_code :: nat
  json_body :: jsval

definition success_response :: response where
  "success_response =
     \<lparr>status_code = 200,
      json_body = JObj [(''success'', JBool True), (''message'', JStr ''Webhook received successfully'')]\<rparr>"

definition failure_response :: response where
  "failure_response =
     \<lparr>status_code = 500, json_body = JObj [(''error'', JStr ''Webhook processing failed'')]\<rparr>"

text \<open>
  \<^verbatim>\<open>POST\<close>: the \<^verbatim>\<open>try\<close> block and its \<^verbatim>\<open>catch\<close>, which logs the error to the
  console (not modelled) and answers with the failure response whatever was thrown.
\<close>

definition POST :: "'s store_ops \<Rightarrow> date \<Rightarrow> jsval option \<Rightarrow> 's \<Rightarrow> response \<times> 's" where
  "POST ops now body s =
     (case try_block ops now body s of
        (Inr u, s') \<Rightarrow> (success_response, s')
      | (Inl e, s') \<Rightarrow> (failure_response, s'))"

section \<open>The payment-history table\<close>

text \<open>
  The data-access functions on \<^verbatim>\<open>payment_history\<close>: \<^verbatim>\<open>create\<close> inserts a row with the
  ten columns of its \<^verbatim>\<open>INSERT\<close>, \<^verbatim>\<open>hasSuccessfulPaymentByUserId\<close> counts the rows of a
  user whose status is \<^verbatim>\<open>'success'\<close>. A column holds the JavaScript value that was
  bound to its query parameter; \<^verbatim>\<open>undefined\<close> and \<^verbatim>\<open>null\<close> are SQL's \<^verbatim>\<open>NULL\<close>,
  which equals nothing.
\<close>

record payment_history_row =
  user_id :: jsval
  subscription_plans_id :: "jsnum option"
  creem_payment_intent_id :: jsval
  creem_product_id :: jsval
  creem_subscription_id :: jsval
  creem_customer_id :: jsval
  row_amount :: "jsfloat option"
  currency :: jsval
  row_status :: jsval
  created_at :: "date option"

definition create :: "payment_history_row \<Rightarrow> payment_history_row list \<Rightarrow> payment_history_row list" where
  "create paymentHistory rows = rows @ [paymentHistory]"

definition sql_eq :: "jsval \<Rightarrow> jsval \<Rightarrow> bool" where
  "sql_eq a b \<longleftrightarrow> a \<noteq> JUndefined \<and> a \<noteq> JNull \<and> b \<noteq> JUndefined \<and> b \<noteq> JNull \<and> a = b"

text \<open>
  \<^verbatim>\<open>SELECT COUNT(*) ... WHERE user_id = $1 AND status = 'success'\<close>; the driver returns
  the count as a decimal string, which \<^verbatim>\<open>parseInt\<close> reads back.
\<close>

definition hasSuccessfulPaymentByUserId :: "jsval \<Rightarrow> payment_history_row list \<Rightarrow> bool" where
  "hasSuccessfulPaymentByUserId uid rows =
     (let count =
            length (filter (\<lambda>r. sql_eq (user_id r) uid \<and> sql_eq (row_status r) (JStr ''success'')) rows)
      in num_gt (parseInt (JStr (digits_of count))) (Fin 0))"

section \<open>A store for the services\<close>

text \<open>The calls a handler run makes to the services, with their arguments.\<close>

datatype store_call =
    GetCreditUsageByUserId jsval
  | CreateCreditUsage credit_usage
  | UpdateCreditUsage credit_usage
  | GetUserSubscriptionByUserId jsval
  | CreateUserSubscription user_subscription
  | UpdateUserSubscription user_subscription
  | CreatePaymentHistory payment_history

text \<open>The user identifier a call is keyed by.\<close>

fun call_user :: "store_call \<Rightarrow> jsval" where
  "call_user (GetCreditUsageByUserId u) = u"
| "call_user (CreateCreditUsage c) = user_uuid c"
| "call_user (UpdateCreditUsage c) = user_uuid c"
| "call_user (GetUserSubscriptionByUserId u) = u"
| "call_user (CreateUserSubscription x) = sub_user_uuid x"
| "call_user (UpdateUserSubscription x) = sub_user_uuid x"
| "call_user (CreatePaymentHistory p) = pay_user_uuid p"

text \<open>
  The three tables, and the calls received so far, oldest first.
\<close>

record store =
  credit_usage_rows :: "credit_usage list"
  user_subscription_rows :: "user_subscription list"
  payment_history_rows :: "payment_history_row list"
  calls :: "store_call list"

definition logged :: "store_call \<Rightarrow> store \<Rightarrow> store" where
  "logged c s = s\<lparr>calls := calls s @ [c]\<rparr>"

text \<open>
  Modelled from the spec: the credit-usage service of \<^verbatim>\<open>@/backend/service/credit_usage\<close>
  is missing from the sources. The spec gives it as
  \<^verbatim>\<open>getByUser(userId) -> CreditUsage | absent\<close>, \<^verbatim>\<open>create(CreditUsage)\<close>,
  \<^verbatim>\<open>update(CreditUsage)\<close> on a per-user record: the read gives the user's row or nothing,
  create adds a row, update replaces the user's row. No call throws.
\<close>

definition mem_getCreditUsageByUserId :: "jsval \<Rightarrow> (store, credit_usage option) io" where
  "mem_getCreditUsageByUserId uid s =
     (Inr (find (\<lambda>r. user_uuid r = uid) (credit_usage_rows s)), logged (GetCreditUsageByUserId uid) s)"

definition mem_createCreditUsage :: "credit_usage \<Rightarrow> (store, unit) io" where
  "mem_createCreditUsage c s =
     (Inr (), logged (CreateCreditUsage c) (s\<lparr>credit_usage_rows := credit_usage_rows s @ [c]\<rparr>))"

definition mem_updateCreditUsage :: "credit_usage \<Rightarrow> (store, unit) io" where
  "mem_updateCreditUsage c s =
     (Inr (), logged (UpdateCreditUsage c)
        (s\<lparr>credit_usage_rows :=
             map (\<lambda>r. if user_uuid r = user_uuid c then c else r) (credit_usage_rows s)\<rparr>))"

text \<open>
  Modelled from the spec: the subscription service of
  \<^verbatim>\<open>@/backend/service/user_subscription\<close> is missing from the sources. The spec gives it as
  \<^verbatim>\<open>getByUser(userId) -> Subscription[] | empty\<close>, \<^verbatim>\<open>create(Subscription)\<close> and
  \<^verbatim>\<open>update(partial Subscription keyed by userId or externalSubscriptionId)\<close>, and says of
  the two uses of update: on cancellation and expiry it is keyed by the external
  subscription id and only the status field of the record changes; on a payment it
  overwrites the plan, status, period and external ids of the user's record. So a partial
  record that carries a status and nothing else to write (no plan, no period, no customer
  id) selects the rows with its external subscription id and sets their status; any other
  partial record selects the rows of its user and overwrites the fields it carries.
\<close>

definition status_only :: "user_subscription \<Rightarrow> bool" where
  "status_only p \<longleftrightarrow>
     sub_subscription_plan_id p = None \<and> current_period_start p = None \<and>
     current_period_end p = None \<and> stripe_customer_id p = None"

definition selected :: "user_subscription \<Rightarrow> user_subscription \<Rightarrow> bool" where
  "selected p r \<longleftrightarrow>
     (if status_only p then stripe_subscription_id r = stripe_subscription_id p
      else sub_user_uuid r = sub_user_uuid p)"

definition overwrite :: "user_subscription \<Rightarrow> user_subscription \<Rightarrow> user_subscription" where
  "overwrite p r =
     (if status_only p then r\<lparr>status := status p\<rparr>
      else
        r\<lparr>sub_subscription_plan_id :=
            (case sub_subscription_plan_id p of None \<Rightarrow> sub_subscription_plan_id r | Some x \<Rightarrow> Some x),
          status := status p,
          current_period_start :=
            (case current_period_start p of None \<Rightarrow> current_period_start r | Some x \<Rightarrow> Some x),
          current_period_end :=
            (case current_period_end p of None \<Rightarrow> current_period_end r | Some x \<Rightarrow> Some x),
          stripe_subscription_id := stripe_subscription_id p,
          stripe_customer_id :=
            (case stripe_customer_id p of None \<Rightarrow> stripe_customer_id r | Some x \<Rightarrow> Some x)\<rparr>)"

definition mem_getUserSubscriptionByUserId :: "jsval \<Rightarrow> (store, user_subscription list option) io" where
  "mem_getUserSubscriptionByUserId uid s =
     (Inr (Some (filter (\<lambda>r. sub_user_uuid r = uid) (user_subscription_rows s))),
      logged (GetUserSubscriptionByUserId uid) s)"

definition mem_createUserSubscription :: "user_subscription \<Rightarrow> (store, unit) io" where
  "mem_createUserSubscription x s =
     (Inr (), logged (CreateUserSubscription x)
        (s\<lparr>user_subscription_rows := user_subscription_rows s @ [x]\<rparr>))"

definition mem_updateUserSubscription :: "user_subscription \<Rightarrow> (store, unit) io" where
  "mem_updateUserSubscription p s =
     (Inr (), logged (UpdateUserSubscription p)
        (s\<lparr>user_subscription_rows :=
             map (\<lambda>r. if selected p r then overwrite p r else r) (user_subscription_rows s)\<rparr>))"

text \<open>
  Modelled from the spec: the payment-history service of
  \<^verbatim>\<open>@/backend/service/payment_history\<close> is missing from the sources. The spec's payment
  history holds the user id, plan id, amount, payment status and payment-intent id of a
  payment: the service is taken to hand these to \<^verbatim>\<open>create\<close> under the column names of
  the table and to leave the other columns unset.
\<close>

definition row_of :: "payment_history \<Rightarrow> payment_history_row" where
  "row_of p =
     \<lparr>user_id = pay_user_uuid p,
      subscription_plans_id = Some (pay_subscription_plan_id p),
      creem_payment_intent_id = payment_intent_id p,
      creem_product_id = JUndefined,
      creem_subscription_id = JUndefined,
      creem_customer_id = JUndefined,
      row_amount = Some (amount p),
      currency = JUndefined,
      row_status = JStr (payment_status p),
      created_at = None\<rparr>"

definition mem_createPaymentHistory :: "payment_history \<Rightarrow> (store, unit) io" where
  "mem_createPaymentHistory p s =
     (Inr (), logged (CreatePaymentHistory p)
        (s\<lparr>payment_history_rows := create (row_of p) (payment_history_rows s)\<rparr>))"

definition mem_ops :: "store store_ops" where
  "mem_ops =
     \<lparr>getCreditUsageByUserId = mem_getCreditUsageByUserId,
      createCreditUsage = mem_createCreditUsage,
      updateCreditUsage = mem_updateCreditUsage,
      getUserSubscriptionByUserId = mem_getUserSubscriptionByUserId,
      createUserSubscription = mem_createUserSubscription,
      updateUserSubscription = mem_updateUserSubscription,
      createPaymentHistory = mem_createPaymentHistory\<rparr>"

definition empty_store :: store where
  "empty_store =
     \<lparr>credit_usage_rows = [], user_subscription_rows = [], payment_history_rows = [], calls = []\<rparr>"

section \<open>Events of the shape of the interface WebhookResponse\<close>

text \<open>
  An event with the fields of the interface \<^verbatim>\<open>WebhookResponse\<close> that the handler reads.
  Every field is an arbitrary value; \<open>JUndefined\<close> stands for a field that is missing.
\<close>

definition webhook_event ::
  "jsval \<Rightarrow> jsval \<Rightarrow> jsval \<Rightarrow> jsval \<Rightarrow> jsval \<Rightarrow> jsval \<Rightarrow> jsval \<Rightarrow> jsval" where
  "webhook_event event_type request_id oid customer_id product_id billing_type metadata =
     JObj
       [(''eventType'', event_type),
        (''object'',
         JObj
           [(''request_id'', request_id),
            (''id'', oid),
            (''customer'', JObj [(''id'', customer_id)]),
            (''product'', JObj [(''id'', product_id), (''billing_type'', billing_type)]),
            (''metadata'', metadata)])]"

section \<open>Runs of the handler\<close>

text \<open>The calls that the store received between two of its states.\<close>

definition calls_during :: "store \<Rightarrow> store \<Rightarrow> store_call list" where
  "calls_during s s' = drop (length (calls s)) (calls s')"

text \<open>The store after a sequence of requests, each with the time of its arrival.\<close>

fun run_events :: "(date \<times> jsval option) list \<Rightarrow> store \<Rightarrow> store" where
  "run_events [] s = s"
| "run_events ((now, body) # evs) s = run_events evs (snd (POST mem_ops now body s))"

text \<open>
  The payment-history table is the table \<open>before\<close> followed by rows that all have the
  status \<^verbatim>\<open>"completed"\<close>; a step of the handler keeps it so.
\<close>

definition created_completed :: "payment_history_row list \<Rightarrow> store \<Rightarrow> bool" where
  "created_completed before s \<longleftrightarrow>
     (\<exists>created. payment_history_rows s = before @ created \<and>
        (\<forall>r \<in> set created. row_status r = JStr ''completed''))"

definition keeps :: "payment_history_row list \<Rightarrow> (store, 'a) io \<Rightarrow> bool" where
  "keeps before m \<longleftrightarrow>
     (\<forall>s. created_completed before s \<longrightarrow> created_completed before (snd (m s)))"

text \<open>
  The string defaults that the handler writes after \<^verbatim>\<open>||\<close> on its two paths, and a
  metadata value in which every field that is missing has its default.
\<close>

definition one_time_defaults :: "(string \<times> jsval) list" where
  "one_time_defaults =
     [(''credit'', JStr ''100''), (''subscriptionPlanId'', JStr ''1''),
      (''amount'', JStr ''0''), (''interval'', JStr ''month'')]"

definition subscription_defaults :: "(string \<times> jsval) list" where
  "subscription_defaults =
     [(''credit'', JStr ''1000''), (''subscriptionPlanId'', JStr ''1''),
      (''interval'', JStr ''month'')]"

fun with_defaults :: "(string \<times> jsval) list \<Rightarrow> jsval \<Rightarrow> jsval" where
  "with_defaults ds (JObj kvs) = JObj (kvs @ ds)"
| "with_defaults ds JUndefined = JObj ds"
| "with_defaults ds JNull = JObj ds"
| "with_defaults ds v = v"



text \<open>
  Values for the examples: 31 January 2024, 00:00 UTC, records of a user \<open>u1\<close>, and a
  payment-history row of a user \<open>u2\<close>.
\<close>

definition example_now :: date where
  "example_now = 1706659200000"

definition u1_credit :: credit_usage where
  "u1_credit =
     \<lparr>user_uuid = JStr ''u1'', credit_used = Fin 3, credit_total = Fin 10,
      period_start = Some 1700000000000, period_end = Some 1800000000000\<rparr>"

definition u1_subscription :: user_subscription where
  "u1_subscription =
     \<lparr>sub_user_uuid = JStr ''u1'', sub_subscription_plan_id = Some (Fin 2), status = EXPIRED,
      current_period_start = Some 1600000000000, current_period_end = Some 1700000000000,
      stripe_subscription_id = JStr ''sub_0'', stripe_customer_id = Some (JStr ''cus_0'')\<rparr>"

definition u2_success :: payment_history_row where
  "u2_success =
     \<lparr>user_id = JStr ''u2'', subscription_plans_id = Some (Fin 1),
      creem_payment_intent_id = JStr ''pay_0'', creem_product_id = JUndefined,
      creem_subscription_id = JUndefined, creem_customer_id = JUndefined,
      row_amount = None, currency = JUndefined, row_status = JStr ''success'',
      created_at = None\<rparr>"

definition checkout_event :: "jsval \<Rightarrow> jsval" where
  "checkout_event metadata =
     webhook_event (JStr ''checkout.completed'') (JStr ''u1'') (JStr ''pay_1'') (JStr ''cus_1'')
       (JStr ''prod_1'') (JStr ''one-time'') metadata"

definition subscription_event :: "string \<Rightarrow> jsval \<Rightarrow> jsval" where
  "subscription_event event_type metadata =
     webhook_event (JStr event_type) (JStr ''req_1'') (JStr ''sub_1'') (JStr ''cus_1'')
       (JStr ''prod_2'') (JStr ''recurring'') metadata"

section \<open>Reading an event; sequencing\<close>

declare path.simps [simp del]

lemma path_billing_type [simp]:
  "path (webhook_event et rid oid cid pid bt md) [''object'', ''product'', ''billing_type''] = Inr bt"
  by (simp add: webhook_event_def path.simps)

lemma path_request_id [simp]:
  "path (webhook_event et rid oid cid pid bt md) [''object'', ''request_id''] = Inr rid"
  by (simp add: webhook_event_def path.simps)

lemma path_product_id [simp]:
  "path (webhook_event et rid oid cid pid bt md) [''object'', ''product'', ''id''] = Inr pid"
  by (simp add: webhook_event_def path.simps)

lemma path_customer_id [simp]:
  "path (webhook_event et rid oid cid pid bt md) [''object'', ''customer'', ''id''] = Inr cid"
  by (simp add: webhook_event_def path.simps)

lemma path_userId [simp]:
  "path (webhook_event et rid oid cid pid bt md) [''object'', ''metadata'', ''userId'']
     = get_prop md ''userId''"
  by (simp add: webhook_event_def path.simps split: sum.splits)

lemma eventType_event [simp]: "eventType (webhook_event et rid oid cid pid bt md) = et"
  by (simp add: webhook_event_def eventType_def opt_prop_def)

lemma object_id_event [simp]: "object_id (webhook_event et rid oid cid pid bt md) = oid"
  by (simp add: webhook_event_def object_id_def opt_prop_def)

lemma metadata_opt_event [simp]:
  "metadata_opt (webhook_event et rid oid cid pid bt md) k = opt_prop md k"
  by (simp add: webhook_event_def metadata_opt_def opt_prop_def)

lemma bind_lift_Inr [simp]: "bind_io (lift_io (Inr x)) f = f x"
  by (simp add: bind_io_def lift_io_def)

lemma bind_lift_Inl [simp]: "bind_io (lift_io (Inl e)) f = lift_io (Inl e)"
  by (rule ext) (simp add: bind_io_def lift_io_def)

lemma bind_return [simp]: "bind_io (return_io x) f = f x"
  by (simp add: bind_io_def return_io_def)

lemma return_io_apply [simp]: "return_io x s = (Inr x, s)"
  by (simp add: return_io_def)

lemma lift_io_apply [simp]: "lift_io r s = (r, s)"
  by (simp add: lift_io_def)

text \<open>A throw ends the sequence: what follows is not run.\<close>

lemma bind_io_throws: "m s = (Inl e, s') \<Longrightarrow> bind_io m f s = (Inl e, s')"
  by (simp add: bind_io_def)

lemma bind_io_returns: "m s = (Inr x, s') \<Longrightarrow> bind_io m f s = f x s'"
  by (simp add: bind_io_def)

lemma later_is_max: "(if m < e then e else m) = max e (m::int)"
  by (simp add: max_def)

lemmas mem_defs =
  mem_ops_def mem_getCreditUsageByUserId_def mem_createCreditUsage_def
  mem_updateCreditUsage_def mem_getUserSubscriptionByUserId_def
  mem_createUserSubscription_def mem_updateUserSubscription_def
  mem_createPaymentHistory_def logged_def create_def

section \<open>Evaluating the examples\<close>

lemma month_after_example: "setMonth example_now (getMonth example_now + 1) = 1709337600000"
  by code_simp

lemma year_after_example: "setFullYear example_now (getFullYear example_now + 1) = 1738281600000"
  by code_simp

lemmas parse_defs = parseInt_def StrWhiteSpaceChar_def radix_digit_def digit_value_def

lemmas example_defs =
  checkout_event_def subscription_event_def empty_store_def u1_credit_def u1_subscription_def

section \<open>The one-time payment path\<close>

text \<open>
  C1. The claim is that a one-time \<^verbatim>\<open>checkout.completed\<close> event for a user without a
  credit-usage record creates that record and a payment-history row and is answered with
  the success response. The handler does not get there: it reads
  \<^verbatim>\<open>credit_usage_from_db.period_end\<close> before it tests \<^verbatim>\<open>!credit_usage_from_db\<close>, and
  with no record this read throws. Whatever the services are, once
  \<^verbatim>\<open>getCreditUsageByUserId\<close> has reported that there is no record, no further call is
  made, nothing is created, and the answer is the failure response.
\<close>

theorem checkout_completed_without_credit_record_fails:
  assumes "billing_type \<noteq> JStr ''recurring''"
      and "getCreditUsageByUserId ops request_id s = (Inr None, s')"
  shows "POST ops now
           (Some (webhook_event (JStr ''checkout.completed'') request_id oid customer_id
                    product_id billing_type metadata)) s =
         (failure_response, s')"
  using assms
  apply (simp add: POST_def try_block_def req_json_def)
  apply (simp add: checkout_completed_def Let_def)
  apply (simp add: bind_io_def field_of_def)
  done

text \<open>
  The event of the spec's scenario, with the customer and product ids that the interface
  requires, on the empty store: the read of the record is the only call.
\<close>

theorem checkout_completed_without_credit_record_fails_witness:
  "POST mem_ops example_now (Some (checkout_event (JObj [(''credit'', JStr ''50'')]))) empty_store =
     (\<lparr>status_code = 500, json_body = JObj [(''error'', JStr ''Webhook processing failed'')]\<rparr>,
      \<lparr>credit_usage_rows = [], user_subscription_rows = [], payment_history_rows = [],
       calls = [GetCreditUsageByUserId (JStr ''u1'')]\<rparr>)"
  using checkout_completed_without_credit_record_fails
          [where billing_type = "JStr ''one-time''" and ops = mem_ops and request_id = "JStr ''u1''"
             and s = empty_store
             and s' = "empty_store\<lparr>calls := [GetCreditUsageByUserId (JStr ''u1'')]\<rparr>"
             and now = example_now and oid = "JStr ''pay_1''" and customer_id = "JStr ''cus_1''"
             and product_id = "JStr ''prod_1''" and metadata = "JObj [(''credit'', JStr ''50'')]"]
  by (simp add: example_defs failure_response_def mem_defs)

text \<open>
  The scenario as the spec writes it has no \<^verbatim>\<open>customer\<close> either. That event does not
  reach the store at all: \<^verbatim>\<open>webhook.object.customer.id\<close> in line 112 throws first.
\<close>

lemma checkout_completed_without_customer_fails:
  "POST ops now
     (Some (JObj [(''eventType'', JStr ''checkout.completed''),
                  (''object'',
                   JObj [(''request_id'', JStr ''u1''),
                         (''product'', JObj [(''billing_type'', JStr ''one-time'')]),
                         (''id'', JStr ''pay_1''),
                         (''metadata'', JObj [(''credit'', JStr ''50'')])])]))
     s = (failure_response, s)"
  by (simp add: POST_def try_block_def req_json_def checkout_completed_def path.simps
      eventType_def opt_prop_def)

text \<open>
  C2. A one-time \<^verbatim>\<open>checkout.completed\<close> event for a user who has a credit-usage record
  \<open>db\<close> is answered with the success response after three calls: the read of the record,
  an update and the creation of a payment-history row. The update keeps \<open>credit_used\<close> and
  \<open>period_start\<close> of \<open>db\<close>, sets \<open>credit_total\<close> to the total of \<open>db\<close> plus
  \<^verbatim>\<open>parseInt(metadata?.credit || "100")\<close>, and sets \<open>period_end\<close> to the later of the
  period end of \<open>db\<close> and one month after now (to one month after now when \<open>db\<close> has no
  period end).
\<close>

theorem checkout_completed_tops_up_existing_credit:
  assumes "billing_type \<noteq> JStr ''recurring''"
      and "find (\<lambda>r. user_uuid r = request_id) (credit_usage_rows s) = Some db"
  shows "POST mem_ops now
           (Some (webhook_event (JStr ''checkout.completed'') request_id oid customer_id
                    product_id billing_type metadata)) s =
         (let month_later = setMonth now (getMonth now + 1);
              topped_up =
                \<lparr>user_uuid = request_id,
                 credit_used = credit_used db,
                 credit_total =
                   num_add (credit_total db)
                     (parseInt (js_or (opt_prop metadata ''credit'') (JStr ''100''))),
                 period_start = period_start db,
                 period_end =
                   Some (case period_end db of None \<Rightarrow> month_later | Some e \<Rightarrow> max e month_later)\<rparr>;
              payment =
                \<lparr>pay_user_uuid = request_id,
                 pay_subscription_plan_id =
                   parseInt (js_or (opt_prop metadata ''subscriptionPlanId'') (JStr ''1'')),
                 amount = ParseFloat (js_or (opt_prop metadata ''amount'') (JStr ''0'')),
                 interval = js_or (opt_prop metadata ''interval'') (JStr ''month''),
                 payment_status = ''completed'',
                 payment_intent_id = oid\<rparr>
          in (success_response,
              s\<lparr>credit_usage_rows :=
                  map (\<lambda>r. if user_uuid r = request_id then topped_up else r) (credit_usage_rows s),
                payment_history_rows := payment_history_rows s @ [row_of payment],
                calls :=
                  calls s @
                  [GetCreditUsageByUserId request_id, UpdateCreditUsage topped_up,
                   CreatePaymentHistory payment]\<rparr>))"
  using assms
  apply (simp add: POST_def try_block_def req_json_def)
  apply (simp add: checkout_completed_def Let_def mem_ops_def)
  apply (simp add: bind_io_def mem_getCreditUsageByUserId_def field_of_def)
  apply (simp add: mem_updateCreditUsage_def mem_createPaymentHistory_def logged_def create_def
      later_is_max cong: option.case_cong)
  done

text \<open>
  The record of \<open>u1\<close> ends its period in 2027, later than one month after the event: the
  period end stays, ten credits become sixty, the three used credits stay.
\<close>

theorem checkout_completed_tops_up_existing_credit_witness:
  "POST mem_ops example_now (Some (checkout_event (JObj [(''credit'', JStr ''50'')])))
     (empty_store\<lparr>credit_usage_rows := [u1_credit]\<rparr>) =
   (success_response,
    \<lparr>credit_usage_rows =
       [\<lparr>user_uuid = JStr ''u1'', credit_used = Fin 3, credit_total = Fin 60,
         period_start = Some 1700000000000, period_end = Some 1800000000000\<rparr>],
     user_subscription_rows = [],
     payment_history_rows =
       [\<lparr>user_id = JStr ''u1'', subscription_plans_id = Some (Fin 1),
         creem_payment_intent_id = JStr ''pay_1'', creem_product_id = JUndefined,
         creem_subscription_id = JUndefined, creem_customer_id = JUndefined,
         row_amount = Some (ParseFloat (JStr ''0'')), currency = JUndefined,
         row_status = JStr ''completed'', created_at = None\<rparr>],
     calls =
       [GetCreditUsageByUserId (JStr ''u1''),
        UpdateCreditUsage
          \<lparr>user_uuid = JStr ''u1'', credit_used = Fin 3, credit_total = Fin 60,
           period_start = Some 1700000000000, period_end = Some 1800000000000\<rparr>,
        CreatePaymentHistory
          \<lparr>pay_user_uuid = JStr ''u1'', pay_subscription_plan_id = Fin 1,
           amount = ParseFloat (JStr ''0''), interval = JStr ''month'',
           payment_status = ''completed'', payment_intent_id = JStr ''pay_1''\<rparr>]\<rparr>)"
  using checkout_completed_tops_up_existing_credit
          [of "JStr ''one-time''" "JStr ''u1''" "empty_store\<lparr>credit_usage_rows := [u1_credit]\<rparr>"
              u1_credit example_now "JStr ''pay_1''" "JStr ''cus_1''" "JStr ''prod_1''"
              "JObj [(''credit'', JStr ''50'')]"]
  by (simp add: example_defs month_after_example opt_prop_def js_or_def parse_defs row_of_def Let_def)

section \<open>The subscription path\<close>

text \<open>
  C3. A \<^verbatim>\<open>subscription.paid\<close> event on a recurring product, for the user
  \<^verbatim>\<open>metadata.userId\<close> who has no subscription record, is answered with the success
  response after four calls: the read of the subscriptions, the creation of a subscription
  with status \<open>ACTIVE\<close>, the period from now to one year after now when
  \<^verbatim>\<open>metadata.interval\<close> is \<^verbatim>\<open>"year"\<close> and to one month after now otherwise, and the
  event's object id and customer id; the read of the credit usage; and the creation of the
  credit usage, or its update when there is one, with nothing used, the total
  \<^verbatim>\<open>parseInt(metadata?.credit || "1000")\<close> and the same period.
\<close>

theorem subscription_paid_creates_subscription:
  assumes "get_prop metadata ''userId'' = Inr userId"
      and "filter (\<lambda>r. sub_user_uuid r = userId) (user_subscription_rows s) = []"
  shows "POST mem_ops now
           (Some (webhook_event (JStr ''subscription.paid'') request_id oid customer_id
                    product_id (JStr ''recurring'') metadata)) s =
         (let newPeriodEnd =
                (if opt_prop metadata ''interval'' = JStr ''year''
                 then setFullYear now (getFullYear now + 1)
                 else setMonth now (getMonth now + 1));
              subscription =
                \<lparr>sub_user_uuid = userId,
                 sub_subscription_plan_id =
                   Some (parseInt (js_or (opt_prop metadata ''subscriptionPlanId'') (JStr ''1''))),
                 status = ACTIVE,
                 current_period_start = Some now,
                 current_period_end = Some newPeriodEnd,
                 stripe_subscription_id = oid,
                 stripe_customer_id = Some customer_id\<rparr>;
              credit =
                \<lparr>user_uuid = userId,
                 credit_used = Fin 0,
                 credit_total = parseInt (js_or (opt_prop metadata ''credit'') (JStr ''1000'')),
                 period_start = Some now,
                 period_end = Some newPeriodEnd\<rparr>;
              existing = find (\<lambda>r. user_uuid r = userId) (credit_usage_rows s)
          in (success_response,
              s\<lparr>credit_usage_rows :=
                  (if existing = None then credit_usage_rows s @ [credit]
                   else map (\<lambda>r. if user_uuid r = userId then credit else r) (credit_usage_rows s)),
                user_subscription_rows := user_subscription_rows s @ [subscription],
                calls :=
                  calls s @
                  [GetUserSubscriptionByUserId userId, CreateUserSubscription subscription,
                   GetCreditUsageByUserId userId,
                   (if existing = None then CreateCreditUsage credit else UpdateCreditUsage credit)]\<rparr>))"
  using assms
  apply (simp add: POST_def try_block_def req_json_def)
  apply (simp add: subscription_paid_def Let_def mem_ops_def)
  apply (simp add: bind_io_def mem_getUserSubscriptionByUserId_def mem_createUserSubscription_def
      mem_getCreditUsageByUserId_def logged_def)
  apply (cases "find (\<lambda>r. user_uuid r = userId) (credit_usage_rows s)")
   apply (simp_all add: mem_createCreditUsage_def mem_updateCreditUsage_def logged_def)
  done

theorem subscription_paid_creates_subscription_witness:
  "POST mem_ops example_now
     (Some (subscription_event ''subscription.paid''
              (JObj [(''userId'', JStr ''u1''), (''interval'', JStr ''year''), (''credit'', JStr ''500'')])))
     empty_store =
   (success_response,
    \<lparr>credit_usage_rows =
       [\<lparr>user_uuid = JStr ''u1'', credit_used = Fin 0, credit_total = Fin 500,
         period_start = Some 1706659200000, period_end = Some 1738281600000\<rparr>],
     user_subscription_rows =
       [\<lparr>sub_user_uuid = JStr ''u1'', sub_subscription_plan_id = Some (Fin 1), status = ACTIVE,
         current_period_start = Some 1706659200000, current_period_end = Some 1738281600000,
         stripe_subscription_id = JStr ''sub_1'', stripe_customer_id = Some (JStr ''cus_1'')\<rparr>],
     payment_history_rows = [],
     calls =
       [GetUserSubscriptionByUserId (JStr ''u1''),
        CreateUserSubscription
          \<lparr>sub_user_uuid = JStr ''u1'', sub_subscription_plan_id = Some (Fin 1), status = ACTIVE,
           current_period_start = Some 1706659200000, current_period_end = Some 1738281600000,
           stripe_subscription_id = JStr ''sub_1'', stripe_customer_id = Some (JStr ''cus_1'')\<rparr>,
        GetCreditUsageByUserId (JStr ''u1''),
        CreateCreditUsage
          \<lparr>user_uuid = JStr ''u1'', credit_used = Fin 0, credit_total = Fin 500,
           period_start = Some 1706659200000, period_end = Some 1738281600000\<rparr>]\<rparr>)"
  using subscription_paid_creates_subscription
          [of "JObj [(''userId'', JStr ''u1''), (''interval'', JStr ''year''), (''credit'', JStr ''500'')]"
              "JStr ''u1''" empty_store example_now "JStr ''req_1''" "JStr ''sub_1''" "JStr ''cus_1''"
              "JStr ''prod_2''"]
  by (simp add: example_defs year_after_example opt_prop_def js_or_def parse_defs Let_def)
    (simp add: example_now_def)

lemma overwrite_all:
  "sub_user_uuid r = u \<Longrightarrow>
   overwrite \<lparr>sub_user_uuid = u, sub_subscription_plan_id = Some p, status = st,
      current_period_start = Some a, current_period_end = Some b,
      stripe_subscription_id = i, stripe_customer_id = Some c\<rparr> r =
   \<lparr>sub_user_uuid = u, sub_subscription_plan_id = Some p, status = st,
      current_period_start = Some a, current_period_end = Some b,
      stripe_subscription_id = i, stripe_customer_id = Some c\<rparr>"
  by (cases r) (simp add: overwrite_def status_only_def)

lemma selected_all:
  "selected \<lparr>sub_user_uuid = u, sub_subscription_plan_id = Some p, status = st,
      current_period_start = Some a, current_period_end = Some b,
      stripe_subscription_id = i, stripe_customer_id = Some c\<rparr> r \<longleftrightarrow> sub_user_uuid r = u"
  by (simp add: selected_def status_only_def)

text \<open>
  C4. A \<^verbatim>\<open>subscription.paid\<close> event on a recurring product, for a user who has a
  subscription record and a credit-usage record \<open>db\<close>: every subscription row of the user
  becomes the record built from the event alone (plan id, status \<open>ACTIVE\<close>, the period
  that starts now, the event's object id and customer id), and the credit-usage row
  becomes a record with nothing used and the total \<^verbatim>\<open>parseInt(metadata?.credit || "1000")\<close>
  over the same period. Neither depends on the rows they replace.
\<close>

theorem subscription_paid_overwrites_subscription:
  assumes "get_prop metadata ''userId'' = Inr userId"
      and "filter (\<lambda>r. sub_user_uuid r = userId) (user_subscription_rows s) \<noteq> []"
      and "find (\<lambda>r. user_uuid r = userId) (credit_usage_rows s) = Some db"
  shows "POST mem_ops now
           (Some (webhook_event (JStr ''subscription.paid'') request_id oid customer_id
                    product_id (JStr ''recurring'') metadata)) s =
         (let newPeriodEnd =
                (if opt_prop metadata ''interval'' = JStr ''year''
                 then setFullYear now (getFullYear now + 1)
                 else setMonth now (getMonth now + 1));
              subscription =
                \<lparr>sub_user_uuid = userId,
                 sub_subscription_plan_id =
                   Some (parseInt (js_or (opt_prop metadata ''subscriptionPlanId'') (JStr ''1''))),
                 status = ACTIVE,
                 current_period_start = Some now,
                 current_period_end = Some newPeriodEnd,
                 stripe_subscription_id = oid,
                 stripe_customer_id = Some customer_id\<rparr>;
              credit =
                \<lparr>user_uuid = userId,
                 credit_used = Fin 0,
                 credit_total = parseInt (js_or (opt_prop metadata ''credit'') (JStr ''1000'')),
                 period_start = Some now,
                 period_end = Some newPeriodEnd\<rparr>
          in (success_response,
              s\<lparr>credit_usage_rows :=
                  map (\<lambda>r. if user_uuid r = userId then credit else r) (credit_usage_rows s),
                user_subscription_rows :=
                  map (\<lambda>r. if sub_user_uuid r = userId then subscription else r)
                    (user_subscription_rows s),
                calls :=
                  calls s @
                  [GetUserSubscriptionByUserId userId, UpdateUserSubscription subscription,
                   GetCreditUsageByUserId userId, UpdateCreditUsage credit]\<rparr>))"
  using assms
  apply (simp add: POST_def try_block_def req_json_def)
  apply (simp add: subscription_paid_def Let_def mem_ops_def)
  apply (simp add: bind_io_def mem_getUserSubscriptionByUserId_def mem_updateUserSubscription_def
      mem_getCreditUsageByUserId_def mem_updateCreditUsage_def logged_def selected_all
      overwrite_all cong: if_cong)
  done

text \<open>
  The user \<open>u1\<close> has an expired subscription \<open>sub_0\<close> of plan 2 and a credit record with
  3 of 10 credits used that runs until 2027. After the event the subscription is the
  event's, and the credit record has 0 of 1000 used and ends one month after the event.
\<close>

theorem subscription_paid_overwrites_subscription_witness:
  "POST mem_ops example_now
     (Some (subscription_event ''subscription.paid'' (JObj [(''userId'', JStr ''u1'')])))
     (empty_store\<lparr>credit_usage_rows := [u1_credit], user_subscription_rows := [u1_subscription]\<rparr>) =
   (success_response,
    \<lparr>credit_usage_rows =
       [\<lparr>user_uuid = JStr ''u1'', credit_used = Fin 0, credit_total = Fin 1000,
         period_start = Some 1706659200000, period_end = Some 1709337600000\<rparr>],
     user_subscription_rows =
       [\<lparr>sub_user_uuid = JStr ''u1'', sub_subscription_plan_id = Some (Fin 1), status = ACTIVE,
         current_period_start = Some 1706659200000, current_period_end = Some 1709337600000,
         stripe_subscription_id = JStr ''sub_1'', stripe_customer_id = Some (JStr ''cus_1'')\<rparr>],
     payment_history_rows = [],
     calls =
       [GetUserSubscriptionByUserId (JStr ''u1''),
        UpdateUserSubscription
          \<lparr>sub_user_uuid = JStr ''u1'', sub_subscription_plan_id = Some (Fin 1), status = ACTIVE,
           current_period_start = Some 1706659200000, current_period_end = Some 1709337600000,
           stripe_subscription_id = JStr ''sub_1'', stripe_customer_id = Some (JStr ''cus_1'')\<rparr>,
        GetCreditUsageByUserId (JStr ''u1''),
        UpdateCreditUsage
          \<lparr>user_uuid = JStr ''u1'', credit_used = Fin 0, credit_total = Fin 1000,
           period_start = Some 1706659200000, period_end = Some 1709337600000\<rparr>]\<rparr>)"
  using subscription_paid_overwrites_subscription
          [of "JObj [(''userId'', JStr ''u1'')]" "JStr ''u1''"
              "empty_store\<lparr>credit_usage_rows := [u1_credit], user_subscription_rows := [u1_subscription]\<rparr>"
              u1_credit example_now "JStr ''req_1''" "JStr ''sub_1''" "JStr ''cus_1''" "JStr ''prod_2''"]
  by (simp add: example_defs month_after_example opt_prop_def js_or_def parse_defs Let_def)
    (simp add: example_now_def)

lemma canceled_call:
  assumes "get_prop metadata ''userId'' = Inr userId"
  shows "POST ops now
           (Some (webhook_event (JStr ''subscription.canceled'') request_id oid customer_id
                    product_id (JStr ''recurring'') metadata)) t =
         (case updateUserSubscription ops
                 \<lparr>sub_user_uuid = userId, sub_subscription_plan_id = None, status = CANCELLED,
                  current_period_start = None, current_period_end = None,
                  stripe_subscription_id = oid, stripe_customer_id = None\<rparr> t of
            (Inl e, t') \<Rightarrow> (failure_response, t')
          | (Inr u, t') \<Rightarrow> (success_response, t'))"
  using assms
  apply (simp add: POST_def try_block_def req_json_def subscription_ended_def)
  apply (simp add: bind_io_def split: prod.splits sum.splits)
  done

lemma expired_call:
  assumes "get_prop metadata ''userId'' = Inr userId"
  shows "POST ops now
           (Some (webhook_event (JStr ''subscription.expired'') request_id oid customer_id
                    product_id (JStr ''recurring'') metadata)) t =
         (case updateUserSubscription ops
                 \<lparr>sub_user_uuid = userId, sub_subscription_plan_id = None, status = EXPIRED,
                  current_period_start = None, current_period_end = None,
                  stripe_subscription_id = oid, stripe_customer_id = None\<rparr> t of
            (Inl e, t') \<Rightarrow> (failure_response, t')
          | (Inr u, t') \<Rightarrow> (success_response, t'))"
  using assms
  by (simp add: POST_def try_block_def req_json_def subscription_ended_def)

lemma status_only_partial:
  "status_only \<lparr>sub_user_uuid = u, sub_subscription_plan_id = None, status = st,
      current_period_start = None, current_period_end = None,
      stripe_subscription_id = i, stripe_customer_id = None\<rparr>"
  by (simp add: status_only_def)

text \<open>
  C5. A \<^verbatim>\<open>subscription.canceled\<close> event on a recurring product makes one call to the
  services, whatever they are: \<^verbatim>\<open>updateUserSubscription\<close> with a record that carries the
  status \<open>CANCELLED\<close> and, to identify the subscription, the user \<^verbatim>\<open>metadata.userId\<close> and
  the event's object id, and that has no plan, no period and no customer id. A
  \<^verbatim>\<open>subscription.expired\<close> event does the same with the status \<open>EXPIRED\<close>. The answer is
  the success response unless that call throws. On the store of this theory the state
  after the event is the state before it with that one call logged and with the status,
  and nothing but the status, set in the subscription rows that have the event's object
  id as their external subscription id: the credit usage and the payment history are
  neither read nor written, and every subscription row keeps its user, plan, period,
  external subscription id and customer id.
\<close>

theorem subscription_ended_changes_status_only:
  assumes ev: "event_type = JStr ''subscription.canceled'' \<and> st = CANCELLED \<or>
               event_type = JStr ''subscription.expired'' \<and> st = EXPIRED"
      and uid: "get_prop metadata ''userId'' = Inr userId"
  shows "(let partial =
                \<lparr>sub_user_uuid = userId, sub_subscription_plan_id = None, status = st,
                 current_period_start = None, current_period_end = None,
                 stripe_subscription_id = oid, stripe_customer_id = None\<rparr>;
              event = webhook_event event_type request_id oid customer_id product_id
                        (JStr ''recurring'') metadata;
              after = snd (POST mem_ops now (Some event) s)
          in POST ops now (Some event) t =
               (case updateUserSubscription ops partial t of
                  (Inl e, t') \<Rightarrow> (failure_response, t')
                | (Inr u, t') \<Rightarrow> (success_response, t')) \<and>
             POST mem_ops now (Some event) s =
               (success_response,
                s\<lparr>user_subscription_rows :=
                    map (\<lambda>r. if stripe_subscription_id r = oid then r\<lparr>status := st\<rparr> else r)
                      (user_subscription_rows s),
                  calls := calls s @ [UpdateUserSubscription partial]\<rparr>) \<and>
             calls after = calls s @ [UpdateUserSubscription partial] \<and>
             credit_usage_rows after = credit_usage_rows s \<and>
             payment_history_rows after = payment_history_rows s \<and>
             map sub_user_uuid (user_subscription_rows after) =
               map sub_user_uuid (user_subscription_rows s) \<and>
             map sub_subscription_plan_id (user_subscription_rows after) =
               map sub_subscription_plan_id (user_subscription_rows s) \<and>
             map current_period_start (user_subscription_rows after) =
               map current_period_start (user_subscription_rows s) \<and>
             map current_period_end (user_subscription_rows after) =
               map current_period_end (user_subscription_rows s) \<and>
             map stripe_subscription_id (user_subscription_rows after) =
               map stripe_subscription_id (user_subscription_rows s) \<and>
             map stripe_customer_id (user_subscription_rows after) =
               map stripe_customer_id (user_subscription_rows s) \<and>
             map status (user_subscription_rows after) =
               map (\<lambda>r. if stripe_subscription_id r = oid then st else status r)
                 (user_subscription_rows s))"
  using ev
proof (elim disjE conjE)
  assume "event_type = JStr ''subscription.canceled''" "st = CANCELLED"
  then show ?thesis
    by (simp add: Let_def canceled_call [OF uid] mem_ops_def mem_updateUserSubscription_def
        logged_def selected_def overwrite_def status_only_partial comp_def cong: if_cong)
next
  assume "event_type = JStr ''subscription.expired''" "st = EXPIRED"
  then show ?thesis
    by (simp add: Let_def expired_call [OF uid] mem_ops_def mem_updateUserSubscription_def
        logged_def selected_def overwrite_def status_only_partial comp_def cong: if_cong)
qed

text \<open>
  The user \<open>u1\<close> has two active subscriptions, \<open>sub_0\<close> and \<open>sub_1\<close>, and a credit
  record. The cancellation of \<open>sub_1\<close> sets the status of that row; the row of \<open>sub_0\<close>
  stays active, both rows keep their ids, plan, period and customer, and the credit record
  is as before.
\<close>

theorem subscription_ended_changes_status_only_witness:
  "POST mem_ops example_now
     (Some (subscription_event ''subscription.canceled'' (JObj [(''userId'', JStr ''u1'')])))
     (empty_store
        \<lparr>credit_usage_rows := [u1_credit],
         user_subscription_rows :=
           [u1_subscription\<lparr>status := ACTIVE\<rparr>,
            u1_subscription\<lparr>status := ACTIVE, stripe_subscription_id := JStr ''sub_1''\<rparr>]\<rparr>) =
   (success_response,
    \<lparr>credit_usage_rows = [u1_credit],
     user_subscription_rows =
       [\<lparr>sub_user_uuid = JStr ''u1'', sub_subscription_plan_id = Some (Fin 2), status = ACTIVE,
         current_period_start = Some 1600000000000, current_period_end = Some 1700000000000,
         stripe_subscription_id = JStr ''sub_0'', stripe_customer_id = Some (JStr ''cus_0'')\<rparr>,
        \<lparr>sub_user_uuid = JStr ''u1'', sub_subscription_plan_id = Some (Fin 2), status = CANCELLED,
         current_period_start = Some 1600000000000, current_period_end = Some 1700000000000,
         stripe_subscription_id = JStr ''sub_1'', stripe_customer_id = Some (JStr ''cus_0'')\<rparr>],
     payment_history_rows = [],
     calls =
       [UpdateUserSubscription
          \<lparr>sub_user_uuid = JStr ''u1'', sub_subscription_plan_id = None, status = CANCELLED,
           current_period_start = None, current_period_end = None,
           stripe_subscription_id = JStr ''sub_1'', stripe_customer_id = None\<rparr>]\<rparr>)"
proof -
  have ev: "JStr ''subscription.canceled'' = JStr ''subscription.canceled'' \<and> CANCELLED = CANCELLED \<or>
            JStr ''subscription.canceled'' = JStr ''subscription.expired'' \<and> CANCELLED = EXPIRED"
    by simp
  have uid: "get_prop (JObj [(''userId'', JStr ''u1'')]) ''userId'' = Inr (JStr ''u1'')"
    by simp
  from subscription_ended_changes_status_only
         [OF ev uid, where oid = "JStr ''sub_1''" and request_id = "JStr ''req_1''"
            and customer_id = "JStr ''cus_1''" and product_id = "JStr ''prod_2''"
            and now = example_now and ops = mem_ops and t = empty_store
            and s = "empty_store
                \<lparr>credit_usage_rows := [u1_credit],
                 user_subscription_rows :=
                   [u1_subscription\<lparr>status := ACTIVE\<rparr>,
                    u1_subscription\<lparr>status := ACTIVE, stripe_subscription_id := JStr ''sub_1''\<rparr>]\<rparr>"]
  have "POST mem_ops example_now
     (Some (webhook_event (JStr ''subscription.canceled'') (JStr ''req_1'') (JStr ''sub_1'')
              (JStr ''cus_1'') (JStr ''prod_2'') (JStr ''recurring'')
              (JObj [(''userId'', JStr ''u1'')])))
     (empty_store
        \<lparr>credit_usage_rows := [u1_credit],
         user_subscription_rows :=
           [u1_subscription\<lparr>status := ACTIVE\<rparr>,
            u1_subscription\<lparr>status := ACTIVE, stripe_subscription_id := JStr ''sub_1''\<rparr>]\<rparr>) =
     (success_response,
      empty_store
        \<lparr>credit_usage_rows := [u1_credit],
         user_subscription_rows :=
           [u1_subscription\<lparr>status := ACTIVE\<rparr>,
            u1_subscription\<lparr>status := ACTIVE, stripe_subscription_id := JStr ''sub_1''\<rparr>]\<rparr>
        \<lparr>user_subscription_rows :=
           map (\<lambda>r. if stripe_subscription_id r = JStr ''sub_1'' then r\<lparr>status := CANCELLED\<rparr> else r)
             (user_subscription_rows
                (empty_store
                   \<lparr>credit_usage_rows := [u1_credit],
                    user_subscription_rows :=
                      [u1_subscription\<lparr>status := ACTIVE\<rparr>,
                       u1_subscription
                         \<lparr>status := ACTIVE, stripe_subscription_id := JStr ''sub_1''\<rparr>]\<rparr>)),
         calls :=
           calls
             (empty_store
                \<lparr>credit_usage_rows := [u1_credit],
                 user_subscription_rows :=
                   [u1_subscription\<lparr>status := ACTIVE\<rparr>,
                    u1_subscription\<lparr>status := ACTIVE, stripe_subscription_id := JStr ''sub_1''\<rparr>]\<rparr>) @
           [UpdateUserSubscription
              \<lparr>sub_user_uuid = JStr ''u1'', sub_subscription_plan_id = None, status = CANCELLED,
               current_period_start = None, current_period_end = None,
               stripe_subscription_id = JStr ''sub_1'', stripe_customer_id = None\<rparr>]\<rparr>)"
    unfolding Let_def by (elim conjE)
  then show ?thesis
    by (simp add: subscription_event_def empty_store_def u1_subscription_def)
qed

section \<open>Events that no branch handles\<close>

text \<open>
  C6. An event of the interface's shape whose type is not handled on its branch (any type
  but \<^verbatim>\<open>checkout.completed\<close> on a product that is not recurring; any type but
  \<^verbatim>\<open>subscription.paid\<close>, \<^verbatim>\<open>subscription.canceled\<close> and \<^verbatim>\<open>subscription.expired\<close> on a
  recurring product) is answered with the success response and leaves the store as it was.
  This holds for every implementation of the services, also one that throws or writes on
  every call: the handler calls none.
\<close>

theorem unhandled_event_is_acknowledged:
  assumes "billing_type \<noteq> JStr ''recurring'' \<and> event_type \<noteq> JStr ''checkout.completed'' \<or>
           billing_type = JStr ''recurring'' \<and> event_type \<noteq> JStr ''subscription.paid'' \<and>
             event_type \<noteq> JStr ''subscription.canceled'' \<and>
             event_type \<noteq> JStr ''subscription.expired''"
  shows "POST ops now
           (Some (webhook_event event_type request_id oid customer_id product_id billing_type
                    metadata)) s =
         (success_response, s)"
  using assms
proof (elim disjE conjE)
  assume "billing_type \<noteq> JStr ''recurring''" "event_type \<noteq> JStr ''checkout.completed''"
  then show ?thesis
    by (simp add: POST_def try_block_def req_json_def)
next
  assume "billing_type = JStr ''recurring''" "event_type \<noteq> JStr ''subscription.paid''"
    "event_type \<noteq> JStr ''subscription.canceled''" "event_type \<noteq> JStr ''subscription.expired''"
  then show ?thesis
    by (simp add: POST_def try_block_def req_json_def)
qed

text \<open>A \<^verbatim>\<open>subscription.paid\<close> event on a one-time product.\<close>

theorem unhandled_event_is_acknowledged_witness:
  "POST mem_ops example_now
     (Some (webhook_event (JStr ''subscription.paid'') (JStr ''u1'') (JStr ''sub_1'') (JStr ''cus_1'')
              (JStr ''prod_1'') (JStr ''one-time'') (JObj [(''userId'', JStr ''u1'')])))
     (empty_store\<lparr>credit_usage_rows := [u1_credit]\<rparr>) =
   (success_response, empty_store\<lparr>credit_usage_rows := [u1_credit]\<rparr>)"
  using unhandled_event_is_acknowledged
          [of "JStr ''one-time''" "JStr ''subscription.paid''" mem_ops example_now "JStr ''u1''"
              "JStr ''sub_1''" "JStr ''cus_1''" "JStr ''prod_1''" "JObj [(''userId'', JStr ''u1'')]"
              "empty_store\<lparr>credit_usage_rows := [u1_credit]\<rparr>"]
  by simp

section \<open>The failure boundary\<close>


section \<open>Metadata fields that are missing\<close>

declare with_defaults.simps [simp del]

lemma js_or_with_defaults:
  assumes "map_of ds k = Some d \<or> map_of ds k = None"
  shows "js_or (opt_prop (with_defaults ds md) k) d = js_or (opt_prop md k) d"
  using assms
  by (cases md)
    (auto simp: with_defaults.simps opt_prop_def js_or_def map_add_def split: option.splits)

lemma one_time_with_defaults [simp]:
  "js_or (opt_prop (with_defaults one_time_defaults md) ''credit'') (JStr ''100'') =
     js_or (opt_prop md ''credit'') (JStr ''100'')"
  "js_or (opt_prop (with_defaults one_time_defaults md) ''subscriptionPlanId'') (JStr ''1'') =
     js_or (opt_prop md ''subscriptionPlanId'') (JStr ''1'')"
  "js_or (opt_prop (with_defaults one_time_defaults md) ''amount'') (JStr ''0'') =
     js_or (opt_prop md ''amount'') (JStr ''0'')"
  "js_or (opt_prop (with_defaults one_time_defaults md) ''interval'') (JStr ''month'') =
     js_or (opt_prop md ''interval'') (JStr ''month'')"
  by (rule js_or_with_defaults, simp add: one_time_defaults_def)+

lemma subscription_with_defaults [simp]:
  "js_or (opt_prop (with_defaults subscription_defaults md) ''credit'') (JStr ''1000'') =
     js_or (opt_prop md ''credit'') (JStr ''1000'')"
  "js_or (opt_prop (with_defaults subscription_defaults md) ''subscriptionPlanId'') (JStr ''1'') =
     js_or (opt_prop md ''subscriptionPlanId'') (JStr ''1'')"
  by (rule js_or_with_defaults, simp add: subscription_defaults_def)+

lemma interval_with_defaults [simp]:
  "(opt_prop (with_defaults subscription_defaults (JObj kvs)) ''interval'' = JStr ''year'') =
     (opt_prop (JObj kvs) ''interval'' = JStr ''year'')"
  by (simp add: with_defaults.simps opt_prop_def subscription_defaults_def map_add_def
      split: option.splits)

lemma userId_with_defaults [simp]:
  "get_prop (with_defaults subscription_defaults (JObj kvs)) ''userId'' =
     get_prop (JObj kvs) ''userId''"
  by (simp add: with_defaults.simps subscription_defaults_def map_add_def split: option.splits)

lemma checkout_completed_with_defaults:
  "checkout_completed ops now
     (webhook_event et rid oid cid pid bt (with_defaults one_time_defaults md)) =
   checkout_completed ops now (webhook_event et rid oid cid pid bt md)"
  by (simp add: checkout_completed_def cong: option.case_cong)

lemma subscription_paid_with_defaults:
  "subscription_paid ops now
     (webhook_event et rid oid cid pid bt (with_defaults subscription_defaults (JObj kvs))) =
   subscription_paid ops now (webhook_event et rid oid cid pid bt (JObj kvs))"
  by (simp add: subscription_paid_def cong: option.case_cong if_cong)

lemma subscription_ended_with_defaults:
  "subscription_ended ops st
     (webhook_event et rid oid cid pid bt (with_defaults subscription_defaults (JObj kvs))) =
   subscription_ended ops st (webhook_event et rid oid cid pid bt (JObj kvs))"
  by (simp add: subscription_ended_def)

lemma try_block_with_defaults_one_time:
  "bt \<noteq> JStr ''recurring'' \<Longrightarrow>
   try_block ops now
     (Some (webhook_event et rid oid cid pid bt (with_defaults one_time_defaults md))) t =
   try_block ops now (Some (webhook_event et rid oid cid pid bt md)) t"
  by (simp add: try_block_def req_json_def checkout_completed_with_defaults)

lemma try_block_with_defaults_subscription:
  "try_block ops now
     (Some (webhook_event et rid oid cid pid (JStr ''recurring'')
              (with_defaults subscription_defaults (JObj kvs)))) t =
   try_block ops now (Some (webhook_event et rid oid cid pid (JStr ''recurring'') (JObj kvs))) t"
  by (simp add: try_block_def req_json_def subscription_paid_with_defaults
      subscription_ended_with_defaults)

lemma subscription_event_succeeds:
  "fst (POST mem_ops now
          (Some (webhook_event et rid oid cid pid (JStr ''recurring'') (JObj kvs))) s) =
   success_response"
  apply (simp add: POST_def try_block_def req_json_def)
  apply (simp add: subscription_paid_def subscription_ended_def Let_def mem_defs bind_io_def
      split: option.splits prod.splits sum.splits)
  done

lemma checkout_event_succeeds:
  assumes "bt \<noteq> JStr ''recurring''"
      and "find (\<lambda>r. user_uuid r = rid) (credit_usage_rows s) = Some db"
  shows "fst (POST mem_ops now (Some (webhook_event et rid oid cid pid bt md)) s) = success_response"
  using assms
  apply (simp add: POST_def try_block_def req_json_def)
  apply (simp add: checkout_completed_def Let_def mem_defs bind_io_def field_of_def)
  done

text \<open>
  C8, as the code has it. A metadata field among \<^verbatim>\<open>credit\<close>, \<^verbatim>\<open>subscriptionPlanId\<close>,
  \<^verbatim>\<open>amount\<close> and \<^verbatim>\<open>interval\<close> that is missing never changes what the handler does: the
  calls, the store and the answer are those for the same event with each missing field
  set to its default (\<^verbatim>\<open>"100"\<close> on the one-time path and \<^verbatim>\<open>"1000"\<close> on the subscription
  path for the credit, \<^verbatim>\<open>"1"\<close>, \<^verbatim>\<open>"0"\<close>, \<^verbatim>\<open>"month"\<close>), for every implementation of the
  services. On the one-time path this holds for any metadata, also when the event has no
  metadata object at all, and the answer is the success response when the user has a
  credit-usage record. On the recurring path it holds when metadata is an object, which
  may be empty, and the answer is then the success response.
\<close>

theorem missing_metadata_fields_take_defaults:
  "(billing_type \<noteq> JStr ''recurring'' \<longrightarrow>
      POST ops now
        (Some (webhook_event event_type request_id oid customer_id product_id billing_type
                 metadata)) t =
      POST ops now
        (Some (webhook_event event_type request_id oid customer_id product_id billing_type
                 (with_defaults one_time_defaults metadata))) t) \<and>
   (billing_type \<noteq> JStr ''recurring'' \<and>
    find (\<lambda>r. user_uuid r = request_id) (credit_usage_rows s) \<noteq> None \<longrightarrow>
      fst (POST mem_ops now
             (Some (webhook_event event_type request_id oid customer_id product_id billing_type
                      metadata)) s) = success_response) \<and>
   POST ops now
     (Some (webhook_event subscription_event_type request_id oid customer_id product_id
              (JStr ''recurring'') (JObj kvs))) t =
   POST ops now
     (Some (webhook_event subscription_event_type request_id oid customer_id product_id
              (JStr ''recurring'') (with_defaults subscription_defaults (JObj kvs)))) t \<and>
   fst (POST mem_ops now
          (Some (webhook_event subscription_event_type request_id oid customer_id product_id
                   (JStr ''recurring'') (JObj kvs))) s) = success_response"
proof (intro conjI impI)
  assume "billing_type \<noteq> JStr ''recurring''"
  then show "POST ops now
        (Some (webhook_event event_type request_id oid customer_id product_id billing_type
                 metadata)) t =
      POST ops now
        (Some (webhook_event event_type request_id oid customer_id product_id billing_type
                 (with_defaults one_time_defaults metadata))) t"
    by (simp add: POST_def try_block_with_defaults_one_time)
next
  assume "billing_type \<noteq> JStr ''recurring'' \<and>
    find (\<lambda>r. user_uuid r = request_id) (credit_usage_rows s) \<noteq> None"
  then show "fst (POST mem_ops now
             (Some (webhook_event event_type request_id oid customer_id product_id billing_type
                      metadata)) s) = success_response"
    by (auto simp: checkout_event_succeeds)
next
  show "POST ops now
     (Some (webhook_event subscription_event_type request_id oid customer_id product_id
              (JStr ''recurring'') (JObj kvs))) t =
   POST ops now
     (Some (webhook_event subscription_event_type request_id oid customer_id product_id
              (JStr ''recurring'') (with_defaults subscription_defaults (JObj kvs)))) t"
    by (simp add: POST_def try_block_with_defaults_subscription)
next
  show "fst (POST mem_ops now
          (Some (webhook_event subscription_event_type request_id oid customer_id product_id
                   (JStr ''recurring'') (JObj kvs))) s) = success_response"
    by (rule subscription_event_succeeds)
qed


text \<open>
  The one-time event has no metadata at all and the user \<open>u1\<close> has a credit record; the
  subscription event has a metadata object with the user only.
\<close>

theorem missing_metadata_fields_take_defaults_witness:
  "POST mem_ops example_now (Some (checkout_event JUndefined))
     (empty_store\<lparr>credit_usage_rows := [u1_credit]\<rparr>) =
   POST mem_ops example_now
     (Some (checkout_event
              (JObj [(''credit'', JStr ''100''), (''subscriptionPlanId'', JStr ''1''),
                     (''amount'', JStr ''0''), (''interval'', JStr ''month'')])))
     (empty_store\<lparr>credit_usage_rows := [u1_credit]\<rparr>) \<and>
   fst (POST mem_ops example_now (Some (checkout_event JUndefined))
          (empty_store\<lparr>credit_usage_rows := [u1_credit]\<rparr>)) = success_response \<and>
   POST mem_ops example_now
     (Some (subscription_event ''subscription.paid'' (JObj [(''userId'', JStr ''u1'')])))
     (empty_store\<lparr>credit_usage_rows := [u1_credit]\<rparr>) =
   POST mem_ops example_now
     (Some (subscription_event ''subscription.paid''
              (JObj [(''userId'', JStr ''u1''), (''credit'', JStr ''1000''),
                     (''subscriptionPlanId'', JStr ''1''), (''interval'', JStr ''month'')])))
     (empty_store\<lparr>credit_usage_rows := [u1_credit]\<rparr>) \<and>
   fst (POST mem_ops example_now
          (Some (subscription_event ''subscription.paid'' (JObj [(''userId'', JStr ''u1'')])))
          (empty_store\<lparr>credit_usage_rows := [u1_credit]\<rparr>)) = success_response"
  using missing_metadata_fields_take_defaults
          [where billing_type = "JStr ''one-time''" and ops = mem_ops and now = example_now
             and event_type = "JStr ''checkout.completed''" and request_id = "JStr ''u1''"
             and oid = "JStr ''pay_1''" and customer_id = "JStr ''cus_1''"
             and product_id = "JStr ''prod_1''" and metadata = JUndefined
             and t = "empty_store\<lparr>credit_usage_rows := [u1_credit]\<rparr>"
             and s = "empty_store\<lparr>credit_usage_rows := [u1_credit]\<rparr>"
             and subscription_event_type = "JStr ''subscription.paid''" and kvs = "[]"]
        missing_metadata_fields_take_defaults
          [where billing_type = "JStr ''recurring''" and ops = mem_ops and now = example_now
             and event_type = "JStr ''subscription.paid''" and request_id = "JStr ''req_1''"
             and oid = "JStr ''sub_1''" and customer_id = "JStr ''cus_1''"
             and product_id = "JStr ''prod_2''" and metadata = JUndefined
             and t = "empty_store\<lparr>credit_usage_rows := [u1_credit]\<rparr>"
             and s = "empty_store\<lparr>credit_usage_rows := [u1_credit]\<rparr>"
             and subscription_event_type = "JStr ''subscription.paid''"
             and kvs = "[(''userId'', JStr ''u1'')]"]
  unfolding checkout_event_def subscription_event_def with_defaults.simps one_time_defaults_def
    subscription_defaults_def
  by (elim conjE) (simp add: empty_store_def u1_credit_def)

text \<open>
  C8 as claimed fails on the recurring path: \<^verbatim>\<open>metadata.userId\<close> is read without
  optional chaining, so a \<^verbatim>\<open>subscription.paid\<close> event without a metadata object, all of
  whose fields are missing, is answered with the failure response and changes nothing,
  while the same event with the fields present is answered with the success response.
\<close>

theorem subscription_paid_without_metadata_fails:
  "POST mem_ops example_now (Some (subscription_event ''subscription.paid'' JUndefined)) empty_store =
     (failure_response, empty_store) \<and>
   fst (POST mem_ops example_now
          (Some (subscription_event ''subscription.paid''
                   (JObj [(''userId'', JStr ''u1''), (''credit'', JStr ''1000''),
                          (''subscriptionPlanId'', JStr ''1''), (''interval'', JStr ''month'')])))
          empty_store) = success_response"
  by (simp add: subscription_event_def subscription_event_succeeds)
    (simp add: POST_def try_block_def req_json_def subscription_paid_def bind_io_def)

section \<open>The user that keys the calls\<close>

text \<open>
  C9. Every call that a one-time \<^verbatim>\<open>checkout.completed\<close> event makes to the services,
  reads and writes alike, is keyed by the event's \<^verbatim>\<open>object.request_id\<close>, whatever the
  metadata holds; every call that a \<^verbatim>\<open>subscription.paid\<close> event on a recurring product
  makes is keyed by \<^verbatim>\<open>metadata.userId\<close>. In both cases there is at least one call.
\<close>

theorem user_identifier_sources:
  "(billing_type \<noteq> JStr ''recurring'' \<longrightarrow>
      (let after =
             snd (POST mem_ops now
                    (Some (webhook_event (JStr ''checkout.completed'') request_id oid customer_id
                             product_id billing_type metadata)) s)
       in calls_during s after \<noteq> [] \<and>
          (\<forall>c \<in> set (calls_during s after). call_user c = request_id))) \<and>
   (get_prop metadata ''userId'' = Inr userId \<longrightarrow>
      (let after =
             snd (POST mem_ops now
                    (Some (webhook_event (JStr ''subscription.paid'') request_id oid customer_id
                             product_id (JStr ''recurring'') metadata)) s)
       in calls_during s after \<noteq> [] \<and>
          (\<forall>c \<in> set (calls_during s after). call_user c = userId)))"
proof (intro conjI impI)
  assume one_time: "billing_type \<noteq> JStr ''recurring''"
  show "let after =
             snd (POST mem_ops now
                    (Some (webhook_event (JStr ''checkout.completed'') request_id oid customer_id
                             product_id billing_type metadata)) s)
       in calls_during s after \<noteq> [] \<and>
          (\<forall>c \<in> set (calls_during s after). call_user c = request_id)"
  proof (cases "find (\<lambda>r. user_uuid r = request_id) (credit_usage_rows s)")
    case None
    with one_time show ?thesis
      apply (simp add: POST_def try_block_def req_json_def)
      apply (simp add: checkout_completed_def Let_def mem_defs bind_io_def field_of_def
          calls_during_def)
      done
  next
    case (Some db)
    with one_time show ?thesis
      apply (simp add: POST_def try_block_def req_json_def)
      apply (simp add: checkout_completed_def Let_def mem_defs bind_io_def field_of_def
          calls_during_def)
      done
  qed
next
  assume uid: "get_prop metadata ''userId'' = Inr userId"
  show "let after =
             snd (POST mem_ops now
                    (Some (webhook_event (JStr ''subscription.paid'') request_id oid customer_id
                             product_id (JStr ''recurring'') metadata)) s)
       in calls_during s after \<noteq> [] \<and>
          (\<forall>c \<in> set (calls_during s after). call_user c = userId)"
    using uid
    apply (simp add: POST_def try_block_def req_json_def)
    apply (simp add: subscription_paid_def Let_def mem_defs bind_io_def calls_during_def
        split: option.splits)
    done
qed

text \<open>
  The metadata of the one-time event names another user, \<open>u2\<close>: the calls are keyed by
  the request id \<open>u1\<close> all the same. The subscription event has the request id \<open>req_1\<close>
  and its calls are keyed by the \<open>u1\<close> of its metadata.
\<close>

theorem user_identifier_sources_witness:
  "map call_user
     (calls_during (empty_store\<lparr>credit_usage_rows := [u1_credit]\<rparr>)
        (snd (POST mem_ops example_now (Some (checkout_event (JObj [(''userId'', JStr ''u2'')])))
                (empty_store\<lparr>credit_usage_rows := [u1_credit]\<rparr>)))) =
     [JStr ''u1'', JStr ''u1'', JStr ''u1''] \<and>
   map call_user
     (calls_during empty_store
        (snd (POST mem_ops example_now
                (Some (subscription_event ''subscription.paid'' (JObj [(''userId'', JStr ''u1'')])))
                empty_store))) =
     [JStr ''u1'', JStr ''u1'', JStr ''u1'', JStr ''u1'']"
  using user_identifier_sources
          [where billing_type = "JStr ''one-time''" and now = example_now
             and request_id = "JStr ''u1''" and oid = "JStr ''pay_1''"
             and customer_id = "JStr ''cus_1''" and product_id = "JStr ''prod_1''"
             and metadata = "JObj [(''userId'', JStr ''u2'')]" and userId = "JStr ''u2''"
             and s = "empty_store\<lparr>credit_usage_rows := [u1_credit]\<rparr>"]
        user_identifier_sources
          [where billing_type = "JStr ''recurring''" and now = example_now
             and request_id = "JStr ''req_1''" and oid = "JStr ''sub_1''"
             and customer_id = "JStr ''cus_1''" and product_id = "JStr ''prod_2''"
             and metadata = "JObj [(''userId'', JStr ''u1'')]" and userId = "JStr ''u1''"
             and s = empty_store]
  apply (simp add: checkout_event_def subscription_event_def)
  apply (simp add: POST_def try_block_def req_json_def)
  apply (simp add: checkout_completed_def subscription_paid_def Let_def mem_defs bind_io_def
      field_of_def calls_during_def empty_store_def u1_credit_def)
  done

section \<open>Payment history and hasSuccessfulPaymentByUserId\<close>

lemma keeps_return: "keeps before (return_io x)"
  by (simp add: keeps_def)

lemma keeps_lift: "keeps before (lift_io r)"
  by (simp add: keeps_def)

lemma keeps_bind:
  assumes "keeps before m" and "\<And>x. keeps before (f x)"
  shows "keeps before (bind_io m f)"
  using assms
  by (auto simp: keeps_def bind_io_def split: prod.splits sum.splits)

lemma keeps_mem_ops:
  "keeps before (getCreditUsageByUserId mem_ops u)"
  "keeps before (createCreditUsage mem_ops c)"
  "keeps before (updateCreditUsage mem_ops c)"
  "keeps before (getUserSubscriptionByUserId mem_ops u)"
  "keeps before (createUserSubscription mem_ops x)"
  "keeps before (updateUserSubscription mem_ops x)"
  by (simp_all add: keeps_def created_completed_def mem_defs)

lemma keeps_createPaymentHistory:
  assumes "payment_status p = ''completed''"
  shows "keeps before (createPaymentHistory mem_ops p)"
  unfolding keeps_def created_completed_def
proof (intro allI impI)
  fix s :: store
  assume "\<exists>created. payment_history_rows s = before @ created \<and>
            (\<forall>r \<in> set created. row_status r = JStr ''completed'')"
  then obtain created where
    rows: "payment_history_rows s = before @ created" and
    all: "\<forall>r \<in> set created. row_status r = JStr ''completed''"
    by blast
  have "payment_history_rows (snd (createPaymentHistory mem_ops p s)) =
          before @ (created @ [row_of p])"
    by (simp add: mem_defs rows)
  moreover have "\<forall>r \<in> set (created @ [row_of p]). row_status r = JStr ''completed''"
    using all assms by (simp add: row_of_def)
  ultimately show "\<exists>created. payment_history_rows (snd (createPaymentHistory mem_ops p s)) =
                      before @ created \<and>
                    (\<forall>r \<in> set created. row_status r = JStr ''completed'')"
    by blast
qed

lemma keeps_checkout_completed: "keeps before (checkout_completed mem_ops now webhook)"
  unfolding checkout_completed_def Let_def
  by (intro keeps_bind keeps_lift keeps_mem_ops keeps_createPaymentHistory)
    (simp_all add: keeps_mem_ops split: option.splits)

lemma keeps_subscription_paid: "keeps before (subscription_paid mem_ops now webhook)"
  unfolding subscription_paid_def Let_def
  by (intro keeps_bind keeps_lift keeps_mem_ops)
    (simp_all add: keeps_mem_ops split: option.splits)

lemma keeps_subscription_ended: "keeps before (subscription_ended mem_ops st webhook)"
  unfolding subscription_ended_def
  by (intro keeps_bind keeps_lift keeps_mem_ops)

lemma keeps_try_block: "keeps before (try_block mem_ops now body)"
  unfolding try_block_def Let_def
  by (intro keeps_bind keeps_lift)
    (simp_all add: keeps_checkout_completed keeps_subscription_paid keeps_subscription_ended
      keeps_return keeps_bind)

lemma POST_keeps_created_completed:
  "created_completed before s \<Longrightarrow> created_completed before (snd (POST mem_ops now body s))"
  using keeps_try_block [of before now body]
  by (auto simp: keeps_def POST_def split: prod.splits sum.splits)

lemma run_events_keeps_created_completed:
  "created_completed before s \<Longrightarrow> created_completed before (run_events evs s)"
  by (induction evs arbitrary: s) (auto simp: POST_keeps_created_completed)

lemma parseInt_zero: "parseInt (JStr (digits_of 0)) = Fin 0"
  by (simp add: digits_of.simps digit_char_def parse_defs)

text \<open>
  \<^verbatim>\<open>hasSuccessfulPaymentByUserId\<close> is true only if the user has a row with the status
  \<^verbatim>\<open>'success'\<close>.
\<close>

lemma hasSuccessfulPayment_needs_success_row:
  assumes "hasSuccessfulPaymentByUserId uid rows"
  shows "\<exists>r \<in> set rows. user_id r = uid \<and> row_status r = JStr ''success''"
proof (rule ccontr)
  assume "\<not> (\<exists>r \<in> set rows. user_id r = uid \<and> row_status r = JStr ''success'')"
  then have "filter (\<lambda>r. sql_eq (user_id r) uid \<and> sql_eq (row_status r) (JStr ''success'')) rows = []"
    by (auto simp: filter_empty_conv sql_eq_def)
  with assms show False
    by (simp add: hasSuccessfulPaymentByUserId_def parseInt_zero)
qed

text \<open>
  C10. Let the handler answer any sequence of requests, from any store. The
  payment-history table afterwards is the table before followed by the rows the handler
  has created, and every created row has the status \<^verbatim>\<open>"completed"\<close>.
  \<^verbatim>\<open>hasSuccessfulPaymentByUserId\<close> is true for a user only if some row of that user has
  the status \<^verbatim>\<open>'success'\<close>. So for a user who had no payment-history row before, whose
  rows are therefore all the handler's, it is false, whatever rows other users have.
\<close>

theorem webhook_payments_are_never_successful:
  assumes "\<forall>r \<in> set (payment_history_rows s). user_id r \<noteq> uid"
  shows "(\<exists>created. payment_history_rows (run_events evs s) = payment_history_rows s @ created \<and>
            (\<forall>r \<in> set created. row_status r = JStr ''completed'')) \<and>
         (\<forall>rows. hasSuccessfulPaymentByUserId uid rows \<longrightarrow>
            (\<exists>r \<in> set rows. user_id r = uid \<and> row_status r = JStr ''success'')) \<and>
         \<not> hasSuccessfulPaymentByUserId uid (payment_history_rows (run_events evs s))"
proof -
  have "created_completed (payment_history_rows s) s"
    by (simp add: created_completed_def)
  then have "created_completed (payment_history_rows s) (run_events evs s)"
    by (rule run_events_keeps_created_completed)
  then obtain created where
    rows: "payment_history_rows (run_events evs s) = payment_history_rows s @ created" and
    all: "\<forall>r \<in> set created. row_status r = JStr ''completed''"
    by (auto simp: created_completed_def)
  have no_success:
    "\<not> hasSuccessfulPaymentByUserId uid (payment_history_rows (run_events evs s))"
  proof
    assume "hasSuccessfulPaymentByUserId uid (payment_history_rows (run_events evs s))"
    then obtain r where
      "r \<in> set (payment_history_rows s @ created)" "user_id r = uid"
      "row_status r = JStr ''success''"
      using hasSuccessfulPayment_needs_success_row rows by metis
    with assms all show False
      by auto
  qed
  from rows all no_success show ?thesis
    by (auto dest: hasSuccessfulPayment_needs_success_row)
qed

text \<open>
  Another user, \<open>u2\<close>, has a row with the status \<^verbatim>\<open>'success'\<close> that was written
  elsewhere; the user \<open>u1\<close> has a credit record and no payment-history row. After two
  payments of \<open>u1\<close> the table has two more rows, both \<^verbatim>\<open>"completed"\<close>, and
  \<^verbatim>\<open>hasSuccessfulPaymentByUserId\<close> is false for \<open>u1\<close> and true for \<open>u2\<close>.
\<close>

theorem webhook_payments_are_never_successful_witness:
  "map (\<lambda>r. (user_id r, row_status r))
     (payment_history_rows
        (run_events
           [(example_now, Some (checkout_event (JObj [(''credit'', JStr ''50'')]))),
            (example_now, Some (checkout_event JUndefined))]
           (empty_store\<lparr>credit_usage_rows := [u1_credit], payment_history_rows := [u2_success]\<rparr>))) =
     [(JStr ''u2'', JStr ''success''), (JStr ''u1'', JStr ''completed''),
      (JStr ''u1'', JStr ''completed'')] \<and>
   \<not> hasSuccessfulPaymentByUserId (JStr ''u1'')
       (payment_history_rows
          (run_events
             [(example_now, Some (checkout_event (JObj [(''credit'', JStr ''50'')]))),
              (example_now, Some (checkout_event JUndefined))]
             (empty_store\<lparr>credit_usage_rows := [u1_credit], payment_history_rows := [u2_success]\<rparr>))) \<and>
   hasSuccessfulPaymentByUserId (JStr ''u2'')
       (payment_history_rows
          (run_events
             [(example_now, Some (checkout_event (JObj [(''credit'', JStr ''50'')]))),
              (example_now, Some (checkout_event JUndefined))]
             (empty_store\<lparr>credit_usage_rows := [u1_credit], payment_history_rows := [u2_success]\<rparr>)))"
proof -
  have no_rows:
    "\<forall>r \<in> set (payment_history_rows
                  (empty_store\<lparr>credit_usage_rows := [u1_credit], payment_history_rows := [u2_success]\<rparr>)).
       user_id r \<noteq> JStr ''u1''"
    by (simp add: empty_store_def u2_success_def)
  have rows: "payment_history_rows
        (run_events
           [(example_now, Some (checkout_event (JObj [(''credit'', JStr ''50'')]))),
            (example_now, Some (checkout_event JUndefined))]
           (empty_store\<lparr>credit_usage_rows := [u1_credit], payment_history_rows := [u2_success]\<rparr>)) =
     [u2_success,
      row_of \<lparr>pay_user_uuid = JStr ''u1'', pay_subscription_plan_id = Fin 1,
              amount = ParseFloat (JStr ''0''), interval = JStr ''month'',
              payment_status = ''completed'', payment_intent_id = JStr ''pay_1''\<rparr>,
      row_of \<lparr>pay_user_uuid = JStr ''u1'', pay_subscription_plan_id = Fin 1,
              amount = ParseFloat (JStr ''0''), interval = JStr ''month'',
              payment_status = ''completed'', payment_intent_id = JStr ''pay_1''\<rparr>]"
    apply (simp add: checkout_event_def POST_def try_block_def req_json_def)
    apply (simp add: checkout_completed_def Let_def mem_defs bind_io_def field_of_def
        empty_store_def u1_credit_def opt_prop_def js_or_def parse_defs)
    done
  have u2: "hasSuccessfulPaymentByUserId (JStr ''u2'')
     [u2_success,
      row_of \<lparr>pay_user_uuid = JStr ''u1'', pay_subscription_plan_id = Fin 1,
              amount = ParseFloat (JStr ''0''), interval = JStr ''month'',
              payment_status = ''completed'', payment_intent_id = JStr ''pay_1''\<rparr>,
      row_of \<lparr>pay_user_uuid = JStr ''u1'', pay_subscription_plan_id = Fin 1,
              amount = ParseFloat (JStr ''0''), interval = JStr ''month'',
              payment_status = ''completed'', payment_intent_id = JStr ''pay_1''\<rparr>]"
    apply (simp add: hasSuccessfulPaymentByUserId_def sql_eq_def u2_success_def row_of_def)
    apply (subst digits_of.simps)
    apply (simp add: digit_char_def parse_defs)
    done
  from webhook_payments_are_never_successful [OF no_rows] have
    "\<not> hasSuccessfulPaymentByUserId (JStr ''u1'')
       (payment_history_rows
          (run_events
             [(example_now, Some (checkout_event (JObj [(''credit'', JStr ''50'')]))),
              (example_now, Some (checkout_event JUndefined))]
             (empty_store\<lparr>credit_usage_rows := [u1_credit], payment_history_rows := [u2_success]\<rparr>)))"
    by blast
  with u2 show ?thesis
    unfolding rows by (simp add: u2_success_def row_of_def)
qed

end
